theory Spec2Isabelle
  imports Complex_Main "HOL-Library.Sublist"
begin

section \<open>Values read from a trial's artifact\<close>

text \<open>
  The script \<^verbatim>\<open>optimal_continousrun.py\<close> handles four kinds of Python value as a metric:
  \<^verbatim>\<open>None\<close> (the extractor's failure marker), a number (what pandas reads from a numeric
  column), the float \<^verbatim>\<open>nan\<close> (what pandas reads from an empty cell) and a string (what
  pandas reads from a column it cannot parse as numbers: it raises nothing, the column
  gets the \<^verbatim>\<open>object\<close> dtype). Numbers are reals: the rounding of 64-bit floats and the
  infinities are not modelled.
\<close>

datatype pyval = PNone | Num real | NaN | Str string

datatype error = TypeError | KeyError | IndexError | ParserError | FileNotFoundError | OSError

text \<open>Python's \<^verbatim>\<open>bool(x)\<close>.\<close>

fun truthy :: "pyval \<Rightarrow> bool" where
  "truthy PNone = False"
| "truthy (Num r) = (r \<noteq> 0)"
| "truthy NaN = True"
| "truthy (Str s) = (s \<noteq> [])"

text \<open>Python's \<^verbatim>\<open>x <= c\<close> for a number \<open>c\<close>: false on nan, a TypeError on None or a string.\<close>

fun py_le :: "pyval \<Rightarrow> real \<Rightarrow> error + bool" where
  "py_le (Num r) c = Inr (r \<le> c)"
| "py_le NaN c = Inr False"
| "py_le PNone c = Inl TypeError"
| "py_le (Str s) c = Inl TypeError"

text \<open>Python's \<^verbatim>\<open>x * n\<close> for an int \<open>n\<close>: a string is repeated, None raises.\<close>

fun py_mul :: "pyval \<Rightarrow> int \<Rightarrow> error + pyval" where
  "py_mul (Num r) n = Inr (Num (r * of_int n))"
| "py_mul NaN n = Inr NaN"
| "py_mul (Str s) n = Inr (Str (concat (replicate (nat n) s)))"
| "py_mul PNone n = Inl TypeError"

type_synonym metrics = "pyval \<times> pyval \<times> pyval \<times> pyval \<times> pyval"

section \<open>The criterion validator\<close>

text \<open>\<^verbatim>\<open>VALIDATION_CRITERION = {"TTFT": 2000, "latency_per_token": 200, "latency": 200}\<close>\<close>

definition VALIDATION_CRITERION_TTFT :: real where
  "VALIDATION_CRITERION_TTFT = 2000"

definition VALIDATION_CRITERION_latency_per_token :: real where
  "VALIDATION_CRITERION_latency_per_token = 200"

definition VALIDATION_CRITERION_latency :: real where
  "VALIDATION_CRITERION_latency = 200"

text \<open>
  \<^verbatim>\<open>return (ttft <= ... and latency_per_token <= ...)\<close>; the third conjunct is commented
  out in the source. \<^verbatim>\<open>and\<close> does not evaluate its right operand when the left one is
  false.
\<close>

definition validate_criterion :: "pyval \<Rightarrow> pyval \<Rightarrow> pyval \<Rightarrow> error + bool" where
  "validate_criterion ttft latency_per_token latency =
     (case py_le ttft VALIDATION_CRITERION_TTFT of
        Inl e \<Rightarrow> Inl e
      | Inr False \<Rightarrow> Inr False
      | Inr True \<Rightarrow> py_le latency_per_token VALIDATION_CRITERION_latency_per_token)"

section \<open>Tables, paths and the file system\<close>

text \<open>
  What \<^verbatim>\<open>pd.read_csv\<close> makes of a file: it raises on a file it cannot parse (an empty
  file, ragged rows), otherwise it gives a frame, the columns by name with their cells.
\<close>

datatype table = Unparsable | Frame "(string \<times> pyval list) list"

text \<open>\<^verbatim>\<open>df[name].iloc[0]\<close>: a KeyError without the column, an IndexError without a row.\<close>

definition iloc0 :: "(string \<times> pyval list) list \<Rightarrow> string \<Rightarrow> error + pyval" where
  "iloc0 cols name =
     (case map_of cols name of
        None \<Rightarrow> Inl KeyError
      | Some [] \<Rightarrow> Inl IndexError
      | Some (v # vs) \<Rightarrow> Inr v)"

text \<open>
  A path is the list of its components. The two components that the script builds with an
  f-string from a user count keep the count: \<^verbatim>\<open>f"{user_count}_User"\<close> and
  \<^verbatim>\<open>f"avg_Response_User{user_count}.csv"\<close>.
\<close>

datatype name = Name string | User_folder int | Avg_Response_User int

type_synonym path = "name list"

text \<open>
  The JSON config document, with the keys the script reads or writes: \<^verbatim>\<open>"out_dir"\<close>,
  \<^verbatim>\<open>"user_counts"\<close> and \<^verbatim>\<open>"optimal_user_count"\<close> (\<open>None\<close> for a key that is absent or null).
\<close>

record config =
  cfg_out_dir :: "string option"
  cfg_user_counts :: "int list option"
  cfg_optimal_user_count :: "int option"

text \<open>
  The disk: JSON documents by file name, tabular files by path, the directories that
  exist, and the paths at which creating or writing fails with an OSError.
\<close>

record disk =
  json_files :: "string \<rightharpoonup> config"
  csv_files :: "path \<rightharpoonup> table"
  dirs :: "path set"
  denied :: "path \<Rightarrow> bool"

text \<open>\<^verbatim>\<open>p.mkdir(parents=True, exist_ok=True)\<close>\<close>

definition mkdir :: "path \<Rightarrow> disk \<Rightarrow> error + disk" where
  "mkdir p d =
     (if denied d p \<or> csv_files d p \<noteq> None then Inl OSError
      else Inr (d\<lparr>dirs := dirs d \<union> set (prefixes p)\<rparr>))"

text \<open>Writing a tabular file (\<^verbatim>\<open>shutil.copy\<close>, \<^verbatim>\<open>df.to_csv\<close>): the old contents are replaced.\<close>

definition write_csv :: "path \<Rightarrow> table \<Rightarrow> disk \<Rightarrow> error + disk" where
  "write_csv p t d =
     (if denied d p \<or> butlast p \<notin> dirs d then Inl OSError
      else Inr (d\<lparr>csv_files := (csv_files d)(p \<mapsto> t)\<rparr>))"

text \<open>\<^verbatim>\<open>json.dump(config, open(config_file, 'w'), indent=4)\<close>\<close>

definition write_json :: "string \<Rightarrow> config \<Rightarrow> disk \<Rightarrow> disk" where
  "write_json config_file c d = d\<lparr>json_files := (json_files d)(config_file \<mapsto> c)\<rparr>"

section \<open>The world: disk, external benchmark, observable events\<close>

text \<open>What the script prints, one constructor per \<^verbatim>\<open>print\<close> of the source.\<close>

datatype msg =
    Error_running_benchmark
  | Out_dir_not_specified
  | Copied_and_renamed path
  | Avg_not_found_in path
  | Unexpected_error
  | Not_found path
  | Error_extracting_metrics_from path
  | Binary_search_run_failed
  | Binary_search_extract_failed
  | Binary_search_line int metrics
  | Starting_continuous int
  | Continuous_run_failed
  | Continuous_extract_failed
  | Summary_report_generated path
  | Error_generating_summary_report
  | Run_failed
  | Extract_failed
  | User_count_line int metrics
  | Threshold_met int
  | Threshold_not_met int
  | No_valid_optimal_user_count

text \<open>
  The events a run leaves behind, in order: a printed line, a launch of the benchmark (with
  the config file's name and what the file held at that moment) and a sleep.
\<close>

datatype event = Print msg | Launch string "config option" | Sleep nat

record world =
  disk :: disk
  events :: "event list"

definition say :: "msg \<Rightarrow> world \<Rightarrow> world" where
  "say m w = w\<lparr>events := events w @ [Print m]\<rparr>"

text \<open>
  One run of \<^verbatim>\<open>subprocess.run(['echoswift', 'start', '--config', config_file], ...)\<close>: either
  the call raises, or the process completes with an exit code after some seconds. The
  benchmark is external: it is a parameter, a function of the number of launches so far,
  the config file's name and the disk, which it may change.
\<close>

datatype proc = Launch_error | Completed int real

type_synonym bench = "nat \<Rightarrow> string \<Rightarrow> disk \<Rightarrow> proc \<times> disk"

definition launches :: "world \<Rightarrow> (string \<times> config option) list" where
  "launches w = concat (map (\<lambda>ev. case ev of Launch f c \<Rightarrow> [(f, c)] | _ \<Rightarrow> []) (events w))"

section \<open>The trial runner\<close>

text \<open>
  \<^verbatim>\<open>run_benchmark(config_file)\<close> returns \<^verbatim>\<open>(result, run_time)\<close>, or \<^verbatim>\<open>(None, None)\<close> when
  \<^verbatim>\<open>subprocess.run\<close> raised. The result is kept as the exit code.
\<close>

definition run_benchmark :: "bench \<Rightarrow> string \<Rightarrow> world \<Rightarrow> (int option \<times> real option) \<times> world" where
  "run_benchmark echoswift config_file w =
     (let w1 = w\<lparr>events := events w @ [Launch config_file (json_files (disk w) config_file)]\<rparr>;
          (p, d) = echoswift (length (launches w)) config_file (disk w);
          w2 = w1\<lparr>disk := d\<rparr>
      in case p of
           Launch_error \<Rightarrow> ((None, None), say Error_running_benchmark w2)
         | Completed code run_time \<Rightarrow> ((Some code, Some run_time), w2))"

text \<open>
  \<^verbatim>\<open>copy_avg_response(config_file, user_count)\<close>: the whole body is in a
  \<^verbatim>\<open>try ... except Exception\<close>, so it returns nothing and never raises.
\<close>

definition copy_avg_response :: "string \<Rightarrow> int \<Rightarrow> world \<Rightarrow> world" where
  "copy_avg_response config_file user_count w =
     (case json_files (disk w) config_file of
        None \<Rightarrow> say Unexpected_error w
      | Some c \<Rightarrow>
          (case cfg_out_dir c of
             None \<Rightarrow> say Out_dir_not_specified w
           | Some od \<Rightarrow>
               if od = [] then say Out_dir_not_specified w
               else
                 (let results_dir = [Name od, Name ''Results''];
                      avg_response_path = [Name od, User_folder user_count, Name ''avg_Response.csv'']
                  in (case mkdir results_dir (disk w) of
                        Inl e \<Rightarrow> say Unexpected_error w
                      | Inr d1 \<Rightarrow>
                          (case csv_files d1 avg_response_path of
                             Some t \<Rightarrow>
                               (case write_csv (results_dir @ [Avg_Response_User user_count]) t d1 of
                                  Inl e \<Rightarrow> say Unexpected_error (w\<lparr>disk := d1\<rparr>)
                                | Inr d2 \<Rightarrow>
                                    say (Copied_and_renamed (results_dir @ [Avg_Response_User user_count]))
                                      (w\<lparr>disk := d2\<rparr>))
                           | None \<Rightarrow>
                               say (Avg_not_found_in [Name od, User_folder user_count])
                                 (w\<lparr>disk := d1\<rparr>))))))"

section \<open>The metrics extractor\<close>

text \<open>The body of the \<^verbatim>\<open>try\<close> once the file is known to exist.\<close>

definition read_metrics :: "table \<Rightarrow> int \<Rightarrow> error + metrics" where
  "read_metrics t user_count =
     (case t of
        Unparsable \<Rightarrow> Inl ParserError
      | Frame df \<Rightarrow>
          (case iloc0 df ''TTFT(ms)'' of Inl e \<Rightarrow> Inl e | Inr ttft \<Rightarrow>
          (case iloc0 df ''latency_per_token(ms/token)'' of Inl e \<Rightarrow> Inl e | Inr latency_per_token \<Rightarrow>
          (case iloc0 df ''latency(ms)'' of Inl e \<Rightarrow> Inl e | Inr latency \<Rightarrow>
          (case iloc0 df ''throughput(tokens/second)'' of Inl e \<Rightarrow> Inl e | Inr throughput \<Rightarrow>
          (case py_mul throughput user_count of Inl e \<Rightarrow> Inl e | Inr total_throughput \<Rightarrow>
             Inr (ttft, latency_per_token, latency, throughput, total_throughput)))))))"

definition no_metrics :: metrics where
  "no_metrics = (PNone, PNone, PNone, PNone, PNone)"

definition extract_metrics_from_avg_response :: "path \<Rightarrow> int \<Rightarrow> world \<Rightarrow> metrics \<times> world" where
  "extract_metrics_from_avg_response result_dir user_count w =
     (let avg_response_path = result_dir @ [Avg_Response_User user_count]
      in case csv_files (disk w) avg_response_path of
           Some t \<Rightarrow>
             (case read_metrics t user_count of
                Inr m \<Rightarrow> (m, w)
              | Inl e \<Rightarrow> (no_metrics, say (Error_extracting_metrics_from avg_response_path) w))
         | None \<Rightarrow> (no_metrics, say (Not_found avg_response_path) w))"

text \<open>\<^verbatim>\<open>any(metric is None for metric in metrics)\<close>\<close>

fun any_is_None :: "metrics \<Rightarrow> bool" where
  "any_is_None (a, b, c, d, e) = (a = PNone \<or> b = PNone \<or> c = PNone \<or> d = PNone \<or> e = PNone)"

section \<open>The report generator\<close>

fun of_time :: "real option \<Rightarrow> pyval" where
  "of_time None = PNone"
| "of_time (Some t) = Num t"

text \<open>
  \<^verbatim>\<open>generate_summary_report(config_file, optimal_user_count, metrics, benchmark_time)\<close>: the
  whole body is in a \<^verbatim>\<open>try ... except Exception\<close>. The report holds \<^verbatim>\<open>metrics[0]\<close>,
  \<^verbatim>\<open>metrics[2]\<close>, \<^verbatim>\<open>metrics[1]\<close>, \<^verbatim>\<open>metrics[3]\<close>, \<^verbatim>\<open>metrics[4]\<close> in that order.
\<close>

fun report_data :: "int \<Rightarrow> metrics \<Rightarrow> real option \<Rightarrow> (string \<times> pyval list) list" where
  "report_data optimal_user_count (m0, m1, m2, m3, m4) benchmark_time =
     [(''Optimal User Count'', [Num (of_int optimal_user_count)]),
      (''TTFT (ms)'', [m0]),
      (''Latency (ms)'', [m2]),
      (''Latency per Token (ms/token)'', [m1]),
      (''Throughput (tokens/second)'', [m3]),
      (''Total Throughput (tokens/second)'', [m4]),
      (''Benchmark Time (seconds)'', [of_time benchmark_time])]"

definition summary_report_path :: "string \<Rightarrow> path" where
  "summary_report_path od = [Name od, Name ''Results'', Name ''summary_report.csv'']"

definition generate_summary_report :: "string \<Rightarrow> int \<Rightarrow> metrics \<Rightarrow> real option \<Rightarrow> world \<Rightarrow> world" where
  "generate_summary_report config_file optimal_user_count m benchmark_time w =
     (case json_files (disk w) config_file of
        None \<Rightarrow> say Error_generating_summary_report w
      | Some c \<Rightarrow>
          (case cfg_out_dir c of
             None \<Rightarrow> say Error_generating_summary_report w
           | Some od \<Rightarrow>
               (case mkdir (butlast (summary_report_path od)) (disk w) of
                  Inl e \<Rightarrow> say Error_generating_summary_report w
                | Inr d1 \<Rightarrow>
                    (case write_csv (summary_report_path od)
                            (Frame (report_data optimal_user_count m benchmark_time)) d1 of
                       Inl e \<Rightarrow> say Error_generating_summary_report (w\<lparr>disk := d1\<rparr>)
                     | Inr d2 \<Rightarrow>
                         say (Summary_report_generated (summary_report_path od))
                           (w\<lparr>disk := d2\<rparr>)))))"

section \<open>Phase 2: binary search\<close>

text \<open>
  One pass through the body of the \<^verbatim>\<open>while low < high\<close> loop of
  \<^verbatim>\<open>binary_search_user_count\<close>, for a given \<open>mid\<close>: it raises (the config file cannot be
  read, or the comparison in \<^verbatim>\<open>validate_criterion\<close> meets a string), it leaves the loop
  with \<^verbatim>\<open>break\<close>, or the criterion accepts or rejects.
\<close>

datatype step = Step_raise error | Step_break | Step_accept | Step_reject

definition binary_search_body :: "bench \<Rightarrow> string \<Rightarrow> path \<Rightarrow> int \<Rightarrow> world \<Rightarrow> step \<times> world" where
  "binary_search_body echoswift config_file result_dir mid w =
     (case json_files (disk w) config_file of
        None \<Rightarrow> (Step_raise FileNotFoundError, w)
      | Some config \<Rightarrow>
          (let w1 = w\<lparr>disk := write_json config_file (config\<lparr>cfg_user_counts := Some [mid]\<rparr>) (disk w)\<rparr>;
               ((result, runtime), w2) = run_benchmark echoswift config_file w1
           in if result = None then (Step_break, say Binary_search_run_failed w2)
              else
                (let w3 = copy_avg_response config_file mid w2;
                     (m, w4) = extract_metrics_from_avg_response result_dir mid w3
                 in if any_is_None m then (Step_break, say Binary_search_extract_failed w4)
                    else
                      (case m of (ttft, latency_per_token, latency, throughput, total_throughput) \<Rightarrow>
                         (let w5 = say (Binary_search_line mid m) w4
                          in (case validate_criterion ttft latency_per_token latency of
                                Inl e \<Rightarrow> (Step_raise e, w5)
                              | Inr True \<Rightarrow> (Step_accept, w5)
                              | Inr False \<Rightarrow> (Step_reject, w5)))))))"

text \<open>
  The loop, returning the values of \<open>low\<close> and \<open>high\<close> with which it is left:
  \<^verbatim>\<open>low = mid + 1\<close> after an accepted trial, \<^verbatim>\<open>high = mid\<close> after a rejected one.
\<close>

function binary_search_loop ::
  "bench \<Rightarrow> string \<Rightarrow> path \<Rightarrow> int \<Rightarrow> int \<Rightarrow> world \<Rightarrow> (error + int \<times> int) \<times> world" where
  "binary_search_loop echoswift config_file result_dir low high w =
     (if low < high then
        (case binary_search_body echoswift config_file result_dir ((low + high) div 2) w of
           (Step_raise e, w') \<Rightarrow> (Inl e, w')
         | (Step_break, w') \<Rightarrow> (Inr (low, high), w')
         | (Step_accept, w') \<Rightarrow>
             binary_search_loop echoswift config_file result_dir ((low + high) div 2 + 1) high w'
         | (Step_reject, w') \<Rightarrow>
             binary_search_loop echoswift config_file result_dir low ((low + high) div 2) w')
      else (Inr (low, high), w))"
  by pat_completeness auto
termination
  by (relation "measure (\<lambda>(echoswift, config_file, result_dir, low, high, w). nat (high - low))") auto

text \<open>\<^verbatim>\<open>return low - 1\<close>\<close>

definition binary_search_user_count ::
  "bench \<Rightarrow> string \<Rightarrow> int \<Rightarrow> int \<Rightarrow> path \<Rightarrow> world \<Rightarrow> (error + int) \<times> world" where
  "binary_search_user_count echoswift config_file low high result_dir w =
     (case binary_search_loop echoswift config_file result_dir low high w of
        (Inl e, w') \<Rightarrow> (Inl e, w')
      | (Inr (low', high'), w') \<Rightarrow> (Inr (low' - 1), w'))"

section \<open>Phase 1: the linear probe, and the search controller\<close>

text \<open>
  One pass through the body of the \<^verbatim>\<open>while True\<close> loop of \<^verbatim>\<open>adjust_user_count\<close> up to the
  verdict of the criterion. \<open>config\<close> is the document loaded once before the loop; each
  pass sets its \<^verbatim>\<open>"user_counts"\<close> and writes it to the file. The benchmark time of the
  pass comes with the outcome (\<^verbatim>\<open>None\<close> after a failed launch).
\<close>

datatype probe_step =
    Probe_raise error
  | Probe_run_failed
  | Probe_extract_failed "real option"
  | Probe_accept metrics "real option"
  | Probe_reject "real option"

definition probe_body :: "bench \<Rightarrow> string \<Rightarrow> config \<Rightarrow> path \<Rightarrow> int \<Rightarrow> world \<Rightarrow> probe_step \<times> world" where
  "probe_body echoswift config_file config result_dir user_count w =
     (let w1 = w\<lparr>disk := write_json config_file (config\<lparr>cfg_user_counts := Some [user_count]\<rparr>) (disk w)\<rparr>;
          ((result, benchmark_time), w2) = run_benchmark echoswift config_file w1
      in if result = None then (Probe_run_failed, say Run_failed w2)
         else
           (let w3 = copy_avg_response config_file user_count w2;
                (m, w4) = extract_metrics_from_avg_response result_dir user_count w3
            in if any_is_None m then (Probe_extract_failed benchmark_time, say Extract_failed w4)
               else
                 (case m of (ttft, latency_per_token, latency, throughput, total_throughput) \<Rightarrow>
                    (let w5 = say (User_count_line user_count m) w4
                     in (case validate_criterion ttft latency_per_token latency of
                           Inl e \<Rightarrow> (Probe_raise e, w5)
                         | Inr True \<Rightarrow> (Probe_accept m benchmark_time, say (Threshold_met user_count) w5)
                         | Inr False \<Rightarrow> (Probe_reject benchmark_time, say (Threshold_not_met user_count) w5))))))"

text \<open>
  The loop has no bound in the source (it runs for as long as every trial is accepted), so
  the model takes fuel, the number of passes it may make, and gives \<open>None\<close> when the fuel
  runs out. It is left
  \<^item> by \<^verbatim>\<open>break\<close> after a failed launch or a failed extraction, with the values of
    \<^verbatim>\<open>optimal_user_count\<close>, \<^verbatim>\<open>final_metrics\<close> and \<^verbatim>\<open>benchmark_time\<close> at that moment;
  \<^item> at the first rejected trial, with \<^verbatim>\<open>previous_user_count\<close> and \<^verbatim>\<open>user_count\<close>, the
    bounds that the source then gives to \<^verbatim>\<open>binary_search_user_count\<close>.
\<close>

datatype probe_exit =
    Probe_raised error
  | Probe_broke int "metrics option" "real option"
  | Probe_rejected int int "real option"

definition increment :: int where
  "increment = 10"

fun linear_probe ::
  "bench \<Rightarrow> nat \<Rightarrow> string \<Rightarrow> config \<Rightarrow> path \<Rightarrow> int \<Rightarrow> int \<Rightarrow> int \<Rightarrow> metrics option \<Rightarrow> world
     \<Rightarrow> probe_exit option \<times> world" where
  "linear_probe echoswift 0 config_file config result_dir user_count previous_user_count
       optimal_user_count final_metrics w = (None, w)"
| "linear_probe echoswift (Suc fuel) config_file config result_dir user_count previous_user_count
       optimal_user_count final_metrics w =
     (case probe_body echoswift config_file config result_dir user_count w of
        (Probe_raise e, w') \<Rightarrow> (Some (Probe_raised e), w')
      | (Probe_run_failed, w') \<Rightarrow> (Some (Probe_broke optimal_user_count final_metrics None), w')
      | (Probe_extract_failed benchmark_time, w') \<Rightarrow>
          (Some (Probe_broke optimal_user_count final_metrics benchmark_time), w')
      | (Probe_accept m benchmark_time, w') \<Rightarrow>
          linear_probe echoswift fuel config_file config result_dir (user_count + increment)
            user_count user_count (Some m) w'
      | (Probe_reject benchmark_time, w') \<Rightarrow>
          (Some (Probe_rejected previous_user_count user_count benchmark_time), w'))"

text \<open>
  The end of \<^verbatim>\<open>adjust_user_count\<close>: \<^verbatim>\<open>if final_metrics and optimal_user_count > 0\<close>. A tuple
  of five values is true in Python whatever it holds, so \<^verbatim>\<open>final_metrics\<close> is false only
  while it is \<^verbatim>\<open>None\<close>.
\<close>

definition finish :: "string \<Rightarrow> int \<Rightarrow> metrics option \<Rightarrow> real option \<Rightarrow> world \<Rightarrow> int option \<times> world" where
  "finish config_file optimal_user_count final_metrics benchmark_time w =
     (case final_metrics of
        None \<Rightarrow> (None, say No_valid_optimal_user_count w)
      | Some m \<Rightarrow>
          if optimal_user_count > 0
          then (Some optimal_user_count, generate_summary_report config_file optimal_user_count m benchmark_time w)
          else (None, say No_valid_optimal_user_count w))"

text \<open>
  What \<^verbatim>\<open>adjust_user_count\<close> does from the first rejected trial on: the binary search
  between \<^verbatim>\<open>previous_user_count\<close> and \<^verbatim>\<open>user_count\<close>, the extraction of the metrics of
  the count it returns, and the end of the function.
\<close>

definition phase2 ::
  "bench \<Rightarrow> string \<Rightarrow> int \<Rightarrow> int \<Rightarrow> path \<Rightarrow> real option \<Rightarrow> world \<Rightarrow> (error + int option) \<times> world" where
  "phase2 echoswift config_file previous_user_count user_count result_dir benchmark_time w =
     (case binary_search_user_count echoswift config_file previous_user_count user_count result_dir w of
        (Inl e, w') \<Rightarrow> (Inl e, w')
      | (Inr optimal_user_count, w') \<Rightarrow>
          (case extract_metrics_from_avg_response result_dir optimal_user_count w' of
             (final_metrics, w'') \<Rightarrow>
               (case finish config_file optimal_user_count (Some final_metrics) benchmark_time w'' of
                  (r, w3) \<Rightarrow> (Inr r, w3))))"

text \<open>
  \<^verbatim>\<open>adjust_user_count(config_file)\<close>: \<open>None\<close> when the fuel runs out, \<open>Inl\<close> for an exception that
  leaves the function, \<open>Inr\<close> for what it returns (\<^verbatim>\<open>None\<close> or the optimal user count).
\<close>

definition adjust_user_count ::
  "bench \<Rightarrow> nat \<Rightarrow> string \<Rightarrow> world \<Rightarrow> (error + int option) option \<times> world" where
  "adjust_user_count echoswift fuel config_file w =
     (case json_files (disk w) config_file of
        None \<Rightarrow> (Some (Inl FileNotFoundError), w)
      | Some config \<Rightarrow>
          (case cfg_out_dir config of
             None \<Rightarrow> (Some (Inr None), say Out_dir_not_specified w)
           | Some od \<Rightarrow>
               if od = [] then (Some (Inr None), say Out_dir_not_specified w)
               else
                 (let result_dir = [Name od, Name ''Results'']
                  in (case mkdir result_dir (disk w) of
                        Inl e \<Rightarrow> (Some (Inl e), w)
                      | Inr d1 \<Rightarrow>
                          (case linear_probe echoswift fuel config_file config result_dir 56 0 0 None
                                  (w\<lparr>disk := d1\<rparr>) of
                             (None, w') \<Rightarrow> (None, w')
                           | (Some (Probe_raised e), w') \<Rightarrow> (Some (Inl e), w')
                           | (Some (Probe_broke optimal_user_count final_metrics benchmark_time), w') \<Rightarrow>
                               (case finish config_file optimal_user_count final_metrics benchmark_time w' of
                                  (r, w'') \<Rightarrow> (Some (Inr r), w''))
                           | (Some (Probe_rejected previous_user_count user_count benchmark_time), w') \<Rightarrow>
                               (case phase2 echoswift config_file previous_user_count user_count
                                       result_dir benchmark_time w' of
                                  (r, w'') \<Rightarrow> (Some r, w'')))))))"


section \<open>The continuous runner\<close>

text \<open>
  One pass through the body of the \<^verbatim>\<open>while True\<close> loop of
  \<^verbatim>\<open>run_benchmark_with_incremental_requests\<close>. The tuple of the extractor is unpacked as
  \<^verbatim>\<open>ttft, latency, latency_per_token, throughput, total_throughput\<close> and given to the report
  generator in the same order; \<^verbatim>\<open>not all([...])\<close> tests the first four for truth.
\<close>

datatype cont_step = Cont_raise error | Cont_break | Cont_again

definition continuous_body :: "bench \<Rightarrow> string \<Rightarrow> int \<Rightarrow> path \<Rightarrow> world \<Rightarrow> cont_step \<times> world" where
  "continuous_body echoswift config_file optimal_user_count result_dir w =
     (case json_files (disk w) config_file of
        None \<Rightarrow> (Cont_raise FileNotFoundError, w)
      | Some config \<Rightarrow>
          (let w1 = w\<lparr>disk := write_json config_file (config\<lparr>cfg_user_counts := Some [optimal_user_count]\<rparr>) (disk w)\<rparr>;
               ((output, benchmark_time), w2) = run_benchmark echoswift config_file w1
           in if output = None then (Cont_break, say Continuous_run_failed w2)
              else
                (let w3 = copy_avg_response config_file optimal_user_count w2;
                     (m, w4) = extract_metrics_from_avg_response result_dir optimal_user_count w3
                 in (case m of (ttft, latency, latency_per_token, throughput, total_throughput) \<Rightarrow>
                       if \<not> (truthy ttft \<and> truthy latency \<and> truthy latency_per_token \<and> truthy throughput)
                       then (Cont_break, say Continuous_extract_failed w4)
                       else
                         (let w5 = generate_summary_report config_file optimal_user_count
                                     (ttft, latency, latency_per_token, throughput, total_throughput)
                                     benchmark_time w4
                          in (Cont_again, w5\<lparr>events := events w5 @ [Sleep 5]\<rparr>))))))"

text \<open>
  The loop only ends by \<^verbatim>\<open>break\<close> or by an exception, so it takes fuel as well: \<open>None\<close>
  is a run that is still going when the fuel is used up. The \<^verbatim>\<open>KeyboardInterrupt\<close> that
  the source catches arrives from outside and is not modelled.
\<close>

fun continuous_loop ::
  "bench \<Rightarrow> nat \<Rightarrow> string \<Rightarrow> int \<Rightarrow> path \<Rightarrow> world \<Rightarrow> (error + unit) option \<times> world" where
  "continuous_loop echoswift 0 config_file optimal_user_count result_dir w = (None, w)"
| "continuous_loop echoswift (Suc fuel) config_file optimal_user_count result_dir w =
     (case continuous_body echoswift config_file optimal_user_count result_dir w of
        (Cont_raise e, w') \<Rightarrow> (Some (Inl e), w')
      | (Cont_break, w') \<Rightarrow> (Some (Inr ()), w')
      | (Cont_again, w') \<Rightarrow> continuous_loop echoswift fuel config_file optimal_user_count result_dir w')"

definition run_benchmark_with_incremental_requests ::
  "bench \<Rightarrow> nat \<Rightarrow> string \<Rightarrow> int \<Rightarrow> path \<Rightarrow> world \<Rightarrow> (error + unit) option \<times> world" where
  "run_benchmark_with_incremental_requests echoswift fuel config_file optimal_user_count result_dir w =
     continuous_loop echoswift fuel config_file optimal_user_count result_dir (say (Starting_continuous optimal_user_count) w)"

section \<open>Launches, and a synthetic benchmark\<close>

text \<open>
  A launch was dispatched for the count \<open>n\<close> when the config file held, at that moment, a
  document whose \<^verbatim>\<open>"user_counts"\<close> is the list \<open>[n]\<close>.
\<close>

definition dispatched :: "int \<Rightarrow> string \<times> config option \<Rightarrow> bool" where
  "dispatched n l = (case snd l of None \<Rightarrow> False | Some c \<Rightarrow> cfg_user_counts c = Some [n])"

definition single_count :: "string \<times> config option \<Rightarrow> bool" where
  "single_count l =
     (case snd l of
        None \<Rightarrow> False
      | Some c \<Rightarrow> (case cfg_user_counts c of Some [n] \<Rightarrow> True | _ \<Rightarrow> False))"

text \<open>
  A benchmark to run the model on: it reads the config document and, for the user count
  \<open>n\<close> it finds there, leaves the artifact \<^verbatim>\<open><out_dir>/<n>_User/avg_Response.csv\<close> with the
  first-row cells that \<open>cells n\<close> gives (no artifact for \<open>None\<close>). It exits with code 0 after
  one second, and with code 1 when it finds no count.
\<close>

definition artifact :: "pyval \<Rightarrow> pyval \<Rightarrow> pyval \<Rightarrow> pyval \<Rightarrow> table" where
  "artifact ttft latency_per_token latency throughput =
     Frame [(''TTFT(ms)'', [ttft]),
            (''latency_per_token(ms/token)'', [latency_per_token]),
            (''latency(ms)'', [latency]),
            (''throughput(tokens/second)'', [throughput])]"

definition synthetic_bench :: "(int \<Rightarrow> table option) \<Rightarrow> bench" where
  "synthetic_bench cells i config_file d =
     (case json_files d config_file of
        None \<Rightarrow> (Completed 1 1, d)
      | Some c \<Rightarrow>
          (case cfg_out_dir c of
             None \<Rightarrow> (Completed 1 1, d)
           | Some od \<Rightarrow>
               (case cfg_user_counts c of
                  Some [n] \<Rightarrow>
                    (case cells n of
                       None \<Rightarrow> (Completed 0 1, d)
                     | Some t \<Rightarrow>
                         (Completed 0 1,
                          d\<lparr>csv_files := (csv_files d)
                               ([Name od, User_folder n, Name ''avg_Response.csv''] \<mapsto> t)\<rparr>))
                | _ \<Rightarrow> (Completed 1 1, d))))"

text \<open>Acceptable metrics up to the count \<open>K\<close>, a time to first token of 3000 ms above it.\<close>

definition threshold_cells :: "int \<Rightarrow> int \<Rightarrow> table option" where
  "threshold_cells K n =
     Some (artifact (Num (if n \<le> K then 100 else 3000)) (Num 20) (Num 500) (Num 10))"

text \<open>An artifact for the count 56 only.\<close>

definition only_56_cells :: "int \<Rightarrow> table option" where
  "only_56_cells n = (if n = 56 then threshold_cells 56 n else None)"


text \<open>A time to first token that is not a number, and a throughput of zero.\<close>

definition text_cells :: "int \<Rightarrow> table option" where
  "text_cells n = Some (artifact (Str ''fast'') (Num 20) (Num 500) (Num 10))"

definition zero_cells :: "int \<Rightarrow> table option" where
  "zero_cells n = Some (artifact (Num 100) (Num 20) (Num 500) (Num 0))"

definition config0 :: config where
  "config0 = \<lparr>cfg_out_dir = Some ''out'', cfg_user_counts = None, cfg_optimal_user_count = None\<rparr>"

definition disk0 :: disk where
  "disk0 = \<lparr>json_files = [''config.json'' \<mapsto> config0], csv_files = Map.empty, dirs = {},
             denied = (\<lambda>p. False)\<rparr>"

definition world0 :: world where
  "world0 = \<lparr>disk = disk0, events = []\<rparr>"

definition results0 :: path where
  "results0 = [Name ''out'', Name ''Results'']"



text \<open>The worlds in which the synthetic benchmark and the copy of its artifact succeed.\<close>

definition healthy :: "world \<Rightarrow> bool" where
  "healthy w =
     ((case json_files (disk w) ''config.json'' of
         None \<Rightarrow> False
       | Some c \<Rightarrow> cfg_out_dir c = Some ''out'')
      \<and> (\<forall>p. \<not> denied (disk w) p)
      \<and> csv_files (disk w) results0 = None)"

section \<open>Properties of the criterion validator\<close>

text \<open>
  C3. For all real \<open>t\<close> and \<open>l\<close> and any third argument, \<open>validate_criterion t l _\<close> is true
  if and only if \<open>t \<le> 2000\<close> and \<open>l \<le> 200\<close>. The third argument never changes the result,
  whatever the first two are, so the latency threshold of the table is not enforced.
\<close>

theorem validate_criterion_iff:
  "validate_criterion (Num t) (Num l) x = Inr (t \<le> 2000 \<and> l \<le> 200)
   \<and> validate_criterion a b x = validate_criterion a b y
   \<and> validate_criterion (Num 0) (Num 0) (Num (VALIDATION_CRITERION_latency + 1)) = Inr True"
  by (cases "t \<le> 2000")
    (simp_all add: validate_criterion_def VALIDATION_CRITERION_TTFT_def
      VALIDATION_CRITERION_latency_per_token_def)

section \<open>Properties of the trial runner\<close>

text \<open>
  C8. \<open>run_benchmark\<close> returns \<^verbatim>\<open>None\<close> as its result exactly when the invocation of the
  external process raised. A process that completes is returned with its exit code, zero
  or not, together with the elapsed time of the trial.
\<close>

theorem run_benchmark_failure_only_on_launch_error:
  "(fst (fst (run_benchmark echoswift config_file w)) = None)
     = (fst (echoswift (length (launches w)) config_file (disk w)) = Launch_error)
   \<and> fst (run_benchmark echoswift config_file w)
     = (case fst (echoswift (length (launches w)) config_file (disk w)) of
          Launch_error \<Rightarrow> (None, None)
        | Completed code run_time \<Rightarrow> (Some code, Some run_time))"
  by (simp add: run_benchmark_def Let_def split: prod.split proc.split)

section \<open>The trace of launches\<close>

declare binary_search_loop.simps [simp del]

lemma launches_disk_update [simp]: "launches (w\<lparr>disk := d\<rparr>) = launches w"
  by (simp add: launches_def)

lemma launches_say [simp]: "launches (say m w) = launches w"
  by (simp add: launches_def say_def)

lemma disk_say [simp]: "disk (say m w) = disk w"
  by (simp add: say_def)

lemma events_say [simp]: "events (say m w) = events w @ [Print m]"
  by (simp add: say_def)

lemma launches_sleep [simp]: "launches (w\<lparr>events := events w @ [Sleep n]\<rparr>) = launches w"
  by (simp add: launches_def)

lemma launches_copy_avg_response [simp]:
  "launches (copy_avg_response config_file user_count w) = launches w"
  by (simp add: copy_avg_response_def Let_def split: option.split sum.split)

lemma launches_extract [simp]:
  "launches (snd (extract_metrics_from_avg_response result_dir user_count w)) = launches w"
  by (simp add: extract_metrics_from_avg_response_def Let_def split: option.split sum.split)

lemma launches_generate_summary_report [simp]:
  "launches (generate_summary_report config_file n m t w) = launches w"
  by (simp add: generate_summary_report_def split: option.split sum.split)

lemma launches_run_benchmark [simp]:
  "launches (snd (run_benchmark echoswift config_file w))
     = launches w @ [(config_file, json_files (disk w) config_file)]"
  by (simp add: run_benchmark_def Let_def launches_def say_def split: prod.split proc.split)


lemma run_benchmark_launches:
  "run_benchmark echoswift config_file w = (r, w')
   \<Longrightarrow> launches w' = launches w @ [(config_file, json_files (disk w) config_file)]"
  using launches_run_benchmark [of echoswift config_file w] by simp

lemma extract_launches:
  "extract_metrics_from_avg_response result_dir user_count w = (m, w') \<Longrightarrow> launches w' = launches w"
  using launches_extract [of result_dir user_count w] by simp

lemma json_files_write_json [simp]:
  "json_files (write_json config_file c d) config_file = Some c"
  by (simp add: write_json_def)

lemma launches_binary_search_body:
  "launches (snd (binary_search_body echoswift config_file result_dir mid w))
     = (case json_files (disk w) config_file of
          None \<Rightarrow> launches w
        | Some c \<Rightarrow> launches w @ [(config_file, Some (c\<lparr>cfg_user_counts := Some [mid]\<rparr>))])"
  by (auto simp: binary_search_body_def Let_def
      split: option.split prod.split sum.split bool.split
      dest!: run_benchmark_launches extract_launches)

lemma launches_probe_body:
  "launches (snd (probe_body echoswift config_file config result_dir user_count w))
     = launches w @ [(config_file, Some (config\<lparr>cfg_user_counts := Some [user_count]\<rparr>))]"
  by (auto simp: probe_body_def Let_def
      split: option.split prod.split sum.split bool.split
      dest!: run_benchmark_launches extract_launches)

lemma launches_continuous_body:
  "launches (snd (continuous_body echoswift config_file n result_dir w))
     = (case json_files (disk w) config_file of
          None \<Rightarrow> launches w
        | Some c \<Rightarrow> launches w @ [(config_file, Some (c\<lparr>cfg_user_counts := Some [n]\<rparr>))])"
  by (auto simp: continuous_body_def Let_def
      split: option.split prod.split sum.split bool.split
      dest!: run_benchmark_launches extract_launches)


lemma dispatched_single: "dispatched n l \<Longrightarrow> single_count l"
  by (auto simp: dispatched_def single_count_def split: option.splits)

lemma binary_search_body_launch_step:
  "\<exists>new. launches (snd (binary_search_body echoswift config_file result_dir mid w)) = launches w @ new
     \<and> list_all (dispatched mid) new"
  by (cases "json_files (disk w) config_file")
     (simp_all add: launches_binary_search_body dispatched_def)

lemma binary_search_loop_launches:
  "\<exists>new. launches (snd (binary_search_loop echoswift config_file result_dir low high w)) = launches w @ new
     \<and> list_all single_count new"
proof (induction echoswift config_file result_dir low high w rule: binary_search_loop.induct)
  case (1 echoswift config_file result_dir low high w)
  show ?case
  proof (cases "low < high")
    case False
    then show ?thesis by (simp add: binary_search_loop.simps)
  next
    case True
    obtain st w' where body: "binary_search_body echoswift config_file result_dir ((low + high) div 2) w = (st, w')"
      by (cases "binary_search_body echoswift config_file result_dir ((low + high) div 2) w")
    obtain new where new: "launches w' = launches w @ new" "list_all single_count new"
      using binary_search_body_launch_step [of echoswift config_file result_dir "(low + high) div 2" w] body
      by (auto simp: list_all_iff intro: dispatched_single)
    show ?thesis
    proof (cases st)
      case (Step_raise e)
      with True body new show ?thesis by (simp add: binary_search_loop.simps)
    next
      case Step_break
      with True body new show ?thesis by (simp add: binary_search_loop.simps)
    next
      case Step_accept
      from "1.IH"(1) [OF True body [symmetric] Step_accept] obtain new2 where
        "launches (snd (binary_search_loop echoswift config_file result_dir ((low + high) div 2 + 1) high w'))
           = launches w' @ new2" "list_all single_count new2" by blast
      with True body new Step_accept show ?thesis by (simp add: binary_search_loop.simps)
    next
      case Step_reject
      from "1.IH"(2) [OF True body [symmetric] Step_reject] obtain new2 where
        "launches (snd (binary_search_loop echoswift config_file result_dir low ((low + high) div 2) w'))
           = launches w' @ new2" "list_all single_count new2" by blast
      with True body new Step_reject show ?thesis by (simp add: binary_search_loop.simps)
    qed
  qed
qed


section \<open>Properties of the binary search\<close>

lemma binary_search_loop_stop:
  "\<not> low < high \<Longrightarrow>
   binary_search_loop echoswift config_file result_dir low high w = (Inr (low, high), w)"
  by (simp add: binary_search_loop.simps)

lemma binary_search_loop_step:
  assumes "low < high"
    and "binary_search_body echoswift config_file result_dir ((low + high) div 2) w = (st, w')"
  shows "binary_search_loop echoswift config_file result_dir low high w =
     (case st of
        Step_raise e \<Rightarrow> (Inl e, w')
      | Step_break \<Rightarrow> (Inr (low, high), w')
      | Step_accept \<Rightarrow> binary_search_loop echoswift config_file result_dir ((low + high) div 2 + 1) high w'
      | Step_reject \<Rightarrow> binary_search_loop echoswift config_file result_dir low ((low + high) div 2) w')"
  using assms by (subst binary_search_loop.simps) (simp split: step.split)

lemma binary_search_loop_bounds:
  "binary_search_loop echoswift config_file result_dir low high w = (Inr (l, h), w')
   \<Longrightarrow> low \<le> l \<and> h \<le> high \<and> (low \<le> high \<longrightarrow> l \<le> h)"
proof (induction echoswift config_file result_dir low high w rule: binary_search_loop.induct)
  case (1 echoswift config_file result_dir low high w)
  show ?case
  proof (cases "low < high")
    case False
    with "1.prems" show ?thesis by (simp add: binary_search_loop_stop)
  next
    case True
    obtain st w1 where body:
      "binary_search_body echoswift config_file result_dir ((low + high) div 2) w = (st, w1)"
      by (cases "binary_search_body echoswift config_file result_dir ((low + high) div 2) w")
    note unfold = binary_search_loop_step [OF True body]
    show ?thesis
    proof (cases st)
      case (Step_raise e)
      with unfold "1.prems" show ?thesis by simp
    next
      case Step_break
      with unfold "1.prems" True show ?thesis by simp
    next
      case Step_accept
      with unfold "1.prems" have
        "binary_search_loop echoswift config_file result_dir ((low + high) div 2 + 1) high w1 = (Inr (l, h), w')"
        by simp
      from "1.IH"(1) [OF True body [symmetric] Step_accept this] True
      show ?thesis by auto
    next
      case Step_reject
      with unfold "1.prems" have
        "binary_search_loop echoswift config_file result_dir low ((low + high) div 2) w1 = (Inr (l, h), w')"
        by simp
      from "1.IH"(2) [OF True body [symmetric] Step_reject this] True
      show ?thesis by auto
    qed
  qed
qed

lemma binary_search_body_one_launch:
  "length (launches (snd (binary_search_body echoswift config_file result_dir mid w)))
     \<le> Suc (length (launches w))"
  by (simp add: launches_binary_search_body split: option.split)

lemma binary_search_loop_trials:
  "length (launches (snd (binary_search_loop echoswift config_file result_dir low high w)))
     \<le> length (launches w) + nat (high - low)"
proof (induction echoswift config_file result_dir low high w rule: binary_search_loop.induct)
  case (1 echoswift config_file result_dir low high w)
  show ?case
  proof (cases "low < high")
    case False
    then show ?thesis by (simp add: binary_search_loop_stop)
  next
    case True
    obtain st w1 where body:
      "binary_search_body echoswift config_file result_dir ((low + high) div 2) w = (st, w1)"
      by (cases "binary_search_body echoswift config_file result_dir ((low + high) div 2) w")
    note unfold = binary_search_loop_step [OF True body]
    have one: "length (launches w1) \<le> Suc (length (launches w))"
      using binary_search_body_one_launch [of echoswift config_file result_dir "(low + high) div 2" w] body
      by simp
    show ?thesis
    proof (cases st)
      case (Step_raise e)
      with unfold one True show ?thesis by simp
    next
      case Step_break
      with unfold one True show ?thesis by simp
    next
      case Step_accept
      from "1.IH"(1) [OF True body [symmetric] Step_accept] unfold Step_accept one True
      show ?thesis by simp
    next
      case Step_reject
      from "1.IH"(2) [OF True body [symmetric] Step_reject] unfold Step_reject one True
      show ?thesis by simp
    qed
  qed
qed

lemma binary_search_loop_converges:
  "(\<forall>w mid. Inv w \<longrightarrow>
       (\<exists>w'. binary_search_body echoswift config_file result_dir mid w
              = (if mid \<le> K then Step_accept else Step_reject, w') \<and> Inv w'))
   \<Longrightarrow> Inv w \<Longrightarrow> low \<le> K + 1 \<Longrightarrow> K < high \<Longrightarrow>
     fst (binary_search_loop echoswift config_file result_dir low high w) = Inr (K + 1, K + 1)"
proof (induction echoswift config_file result_dir low high w rule: binary_search_loop.induct)
  case (1 echoswift config_file result_dir low high w)
  show ?case
  proof (cases "low < high")
    case False
    with "1.prems" have "low = K + 1" "high = K + 1" by auto
    with False show ?thesis by (simp add: binary_search_loop_stop)
  next
    case True
    from "1.prems"(1,2) obtain w1 where
      body: "binary_search_body echoswift config_file result_dir ((low + high) div 2) w
              = (if (low + high) div 2 \<le> K then Step_accept else Step_reject, w1)"
      and inv: "Inv w1" by blast
    note unfold = binary_search_loop_step [OF True body]
    show ?thesis
    proof (cases "(low + high) div 2 \<le> K")
      case le: True
      with body have b: "binary_search_body echoswift config_file result_dir ((low + high) div 2) w
          = (Step_accept, w1)" by simp
      from le unfold have "binary_search_loop echoswift config_file result_dir low high w
          = binary_search_loop echoswift config_file result_dir ((low + high) div 2 + 1) high w1" by simp
      moreover from "1.IH"(1) [OF True b [symmetric] refl "1.prems"(1) inv] le "1.prems"(3,4)
      have "fst (binary_search_loop echoswift config_file result_dir ((low + high) div 2 + 1) high w1)
          = Inr (K + 1, K + 1)" by simp
      ultimately show ?thesis by simp
    next
      case gt: False
      with body have b: "binary_search_body echoswift config_file result_dir ((low + high) div 2) w
          = (Step_reject, w1)" by simp
      from gt unfold have "binary_search_loop echoswift config_file result_dir low high w
          = binary_search_loop echoswift config_file result_dir low ((low + high) div 2) w1" by simp
      moreover from "1.IH"(2) [OF True b [symmetric] refl "1.prems"(1) inv] gt "1.prems"(3,4)
      have "fst (binary_search_loop echoswift config_file result_dir low ((low + high) div 2) w1)
          = Inr (K + 1, K + 1)" by simp
      ultimately show ?thesis by simp
    qed
  qed
qed


lemma binary_search_body_break:
  "binary_search_body echoswift config_file result_dir mid w = (Step_break, w')
   \<Longrightarrow> \<exists>w1. w' = say Binary_search_run_failed w1 \<or> w' = say Binary_search_extract_failed w1"
  by (auto simp: binary_search_body_def Let_def
      split: option.splits prod.splits sum.splits bool.splits if_splits)

lemma binary_search_loop_early_exit:
  "binary_search_loop echoswift config_file result_dir low high w = (Inr (l, h), w')
   \<Longrightarrow> l < h
   \<Longrightarrow> \<exists>w1. w' = say Binary_search_run_failed w1 \<or> w' = say Binary_search_extract_failed w1"
proof (induction echoswift config_file result_dir low high w rule: binary_search_loop.induct)
  case (1 echoswift config_file result_dir low high w)
  show ?case
  proof (cases "low < high")
    case False
    with "1.prems" show ?thesis by (simp add: binary_search_loop_stop)
  next
    case True
    obtain st w1 where body:
      "binary_search_body echoswift config_file result_dir ((low + high) div 2) w = (st, w1)"
      by (cases "binary_search_body echoswift config_file result_dir ((low + high) div 2) w")
    note unfold = binary_search_loop_step [OF True body]
    show ?thesis
    proof (cases st)
      case (Step_raise e)
      with unfold "1.prems" show ?thesis by simp
    next
      case Step_break
      with unfold "1.prems" have "w' = w1" by simp
      with body Step_break show ?thesis by (simp add: binary_search_body_break)
    next
      case Step_accept
      with unfold "1.prems" have
        "binary_search_loop echoswift config_file result_dir ((low + high) div 2 + 1) high w1 = (Inr (l, h), w')"
        by simp
      from "1.IH"(1) [OF True body [symmetric] Step_accept this "1.prems"(2)]
      show ?thesis .
    next
      case Step_reject
      with unfold "1.prems" have
        "binary_search_loop echoswift config_file result_dir low ((low + high) div 2) w1 = (Inr (l, h), w')"
        by simp
      from "1.IH"(2) [OF True body [symmetric] Step_reject this "1.prems"(2)]
      show ?thesis .
    qed
  qed
qed

subsection \<open>The synthetic benchmark in a healthy world\<close>

lemma copy_avg_response_copies:
  assumes "json_files (disk w) config_file = Some c" and "cfg_out_dir c = Some od" and "od \<noteq> []"
    and "\<not> denied (disk w) [Name od, Name ''Results'']"
    and "csv_files (disk w) [Name od, Name ''Results''] = None"
    and "csv_files (disk w) [Name od, User_folder n, Name ''avg_Response.csv''] = Some t"
    and "\<not> denied (disk w) [Name od, Name ''Results'', Avg_Response_User n]"
  shows "copy_avg_response config_file n w
     = say (Copied_and_renamed [Name od, Name ''Results'', Avg_Response_User n])
         (w\<lparr>disk := (disk w)\<lparr>dirs := dirs (disk w) \<union> set (prefixes [Name od, Name ''Results'']),
                               csv_files := (csv_files (disk w))
                                  ([Name od, Name ''Results'', Avg_Response_User n] \<mapsto> t)\<rparr>\<rparr>)"
  using assms by (simp add: copy_avg_response_def mkdir_def write_csv_def)

lemma extract_metrics_reads:
  assumes "csv_files (disk w) (result_dir @ [Avg_Response_User n]) = Some (artifact a b c (Num r))"
  shows "extract_metrics_from_avg_response result_dir n w = ((a, b, c, Num r, Num (r * of_int n)), w)"
  using assms
  by (simp add: extract_metrics_from_avg_response_def read_metrics_def iloc0_def artifact_def)

lemma healthyD:
  assumes "healthy w"
  obtains c where "json_files (disk w) ''config.json'' = Some c" and "cfg_out_dir c = Some ''out''"
    and "\<forall>p. \<not> denied (disk w) p" and "csv_files (disk w) results0 = None"
  using assms by (auto simp: healthy_def split: option.splits)

lemma synthetic_run:
  assumes "json_files (disk w) ''config.json'' = Some c" and "cfg_out_dir c = Some od"
    and "cfg_user_counts c = Some [n]" and "cells n = Some t"
  shows "run_benchmark (synthetic_bench cells) ''config.json'' w
     = ((Some 0, Some 1),
        w\<lparr>events := events w @ [Launch ''config.json'' (Some c)],
          disk := (disk w)\<lparr>csv_files := (csv_files (disk w))
                     ([Name od, User_folder n, Name ''avg_Response.csv''] \<mapsto> t)\<rparr>\<rparr>)"
  using assms by (simp add: run_benchmark_def synthetic_bench_def)


lemma synthetic_trial:
  assumes "healthy w" and c: "json_files (disk w) ''config.json'' = Some c"
    and n: "cfg_user_counts c = Some [n]" and t: "cells n = Some (artifact a b1 b2 (Num r))"
  shows "\<exists>w2 w3. run_benchmark (synthetic_bench cells) ''config.json'' w = ((Some 0, Some 1), w2)
           \<and> copy_avg_response ''config.json'' n w2 = w3
           \<and> extract_metrics_from_avg_response results0 n w3 = ((a, b1, b2, Num r, Num (r * of_int n)), w3)
           \<and> healthy w3"
proof -
  obtain c' where c': "json_files (disk w) ''config.json'' = Some c'"
    "cfg_out_dir c' = Some ''out''" and ok: "\<forall>p. \<not> denied (disk w) p"
    and nofile: "csv_files (disk w) results0 = None"
    using assms(1) by (rule healthyD)
  from c c' have od: "cfg_out_dir c = Some ''out''" by simp
  define w2 where "w2 = w\<lparr>events := events w @ [Launch ''config.json'' (Some c)],
          disk := (disk w)\<lparr>csv_files := (csv_files (disk w))
                     ([Name ''out'', User_folder n, Name ''avg_Response.csv''] \<mapsto> artifact a b1 b2 (Num r))\<rparr>\<rparr>"
  define w3 where "w3 = say (Copied_and_renamed [Name ''out'', Name ''Results'', Avg_Response_User n])
         (w2\<lparr>disk := (disk w2)\<lparr>dirs := dirs (disk w2) \<union> set (prefixes [Name ''out'', Name ''Results'']),
                               csv_files := (csv_files (disk w2))
                                  ([Name ''out'', Name ''Results'', Avg_Response_User n]
                                     \<mapsto> artifact a b1 b2 (Num r))\<rparr>\<rparr>)"
  have run: "run_benchmark (synthetic_bench cells) ''config.json'' w = ((Some 0, Some 1), w2)"
    unfolding w2_def using c od n t by (rule synthetic_run)
  have copied: "copy_avg_response ''config.json'' n w2 = w3"
    unfolding w3_def
    by (rule copy_avg_response_copies [where c = c])
      (use c od ok nofile in \<open>simp_all add: w2_def results0_def\<close>)
  have reads: "extract_metrics_from_avg_response results0 n w3
      = ((a, b1, b2, Num r, Num (r * of_int n)), w3)"
    by (rule extract_metrics_reads) (simp add: w3_def results0_def)
  have "healthy w3"
    using c od ok nofile by (simp add: healthy_def w3_def w2_def results0_def)
  with run copied reads show ?thesis by blast
qed

lemma healthy_write_json:
  assumes "healthy w" and "cfg_out_dir c = Some ''out''"
  shows "healthy (w\<lparr>disk := write_json ''config.json'' c (disk w)\<rparr>)"
  using assms by (simp add: healthy_def write_json_def split: option.splits)

lemma healthy_say: "healthy (say m w) = healthy w"
  by (simp add: healthy_def)

lemma synthetic_threshold_body:
  assumes "healthy w"
  shows "\<exists>w'. binary_search_body (synthetic_bench (threshold_cells K)) ''config.json'' results0 mid w
            = (if mid \<le> K then Step_accept else Step_reject, w') \<and> healthy w'"
proof -
  obtain c where c: "json_files (disk w) ''config.json'' = Some c" "cfg_out_dir c = Some ''out''"
    using assms by (rule healthyD)
  let ?w1 = "w\<lparr>disk := write_json ''config.json'' (c\<lparr>cfg_user_counts := Some [mid]\<rparr>) (disk w)\<rparr>"
  have "healthy ?w1" using assms c by (simp add: healthy_write_json)
  from synthetic_trial [OF this, of "c\<lparr>cfg_user_counts := Some [mid]\<rparr>" mid "threshold_cells K"
      "Num (if mid \<le> K then 100 else 3000)" "Num 20" "Num 500" 10]
  obtain w2 w3 where
    "run_benchmark (synthetic_bench (threshold_cells K)) ''config.json'' ?w1 = ((Some 0, Some 1), w2)"
    "copy_avg_response ''config.json'' mid w2 = w3"
    "extract_metrics_from_avg_response results0 mid w3
       = ((Num (if mid \<le> K then 100 else 3000), Num 20, Num 500, Num 10, Num (10 * of_int mid)), w3)"
    "healthy w3"
    by (auto simp: threshold_cells_def)
  with c show ?thesis
    by (simp add: binary_search_body_def validate_criterion_def healthy_say
        VALIDATION_CRITERION_TTFT_def VALIDATION_CRITERION_latency_per_token_def)
qed

lemma synthetic_threshold_probe:
  assumes "healthy w" and "cfg_out_dir config = Some ''out''"
  shows "\<exists>w'. probe_body (synthetic_bench (threshold_cells K)) ''config.json'' config results0 n w
            = (if n \<le> K
               then Probe_accept (Num 100, Num 20, Num 500, Num 10, Num (10 * of_int n)) (Some 1)
               else Probe_reject (Some 1), w') \<and> healthy w'"
proof -
  let ?w1 = "w\<lparr>disk := write_json ''config.json'' (config\<lparr>cfg_user_counts := Some [n]\<rparr>) (disk w)\<rparr>"
  have "healthy ?w1" using assms by (simp add: healthy_write_json)
  from synthetic_trial [OF this, of "config\<lparr>cfg_user_counts := Some [n]\<rparr>" n "threshold_cells K"
      "Num (if n \<le> K then 100 else 3000)" "Num 20" "Num 500" 10]
  obtain w2 w3 where
    "run_benchmark (synthetic_bench (threshold_cells K)) ''config.json'' ?w1 = ((Some 0, Some 1), w2)"
    "copy_avg_response ''config.json'' n w2 = w3"
    "extract_metrics_from_avg_response results0 n w3
       = ((Num (if n \<le> K then 100 else 3000), Num 20, Num 500, Num 10, Num (10 * of_int n)), w3)"
    "healthy w3"
    by (auto simp: threshold_cells_def)
  then show ?thesis
    by (simp add: probe_body_def validate_criterion_def healthy_say
        VALIDATION_CRITERION_TTFT_def VALIDATION_CRITERION_latency_per_token_def)
qed

lemma healthy_world0: "healthy world0"
  by (simp add: healthy_def world0_def disk0_def config0_def results0_def)

subsection \<open>Convergence and termination\<close>

text \<open>
  C2. When the trial at every count is accepted up to \<open>K\<close> and rejected above it, and the
  bounds satisfy \<open>low < K < high\<close>, the binary search returns \<open>K\<close>.
\<close>

theorem binary_search_returns_threshold:
  assumes "Inv w"
    and "\<forall>w mid. Inv w \<longrightarrow>
           (\<exists>w'. binary_search_body echoswift config_file result_dir mid w
                   = (if mid \<le> K then Step_accept else Step_reject, w') \<and> Inv w')"
    and "low < K" and "K < high"
  shows "fst (binary_search_user_count echoswift config_file low high result_dir w) = Inr K"
proof -
  have "fst (binary_search_loop echoswift config_file result_dir low high w) = Inr (K + 1, K + 1)"
    by (rule binary_search_loop_converges [OF assms(2) assms(1)]) (use assms(3,4) in simp_all)
  then show ?thesis
    by (cases "binary_search_loop echoswift config_file result_dir low high w")
      (simp add: binary_search_user_count_def)
qed

theorem binary_search_returns_threshold_witness:
  "(76::int) < 80 \<and> (80::int) < 86
   \<and> fst (binary_search_user_count (synthetic_bench (threshold_cells 80)) ''config.json'' 76 86
            results0 world0) = Inr 80"
proof -
  have step: "\<forall>w mid. healthy w \<longrightarrow>
      (\<exists>w'. binary_search_body (synthetic_bench (threshold_cells 80)) ''config.json'' results0 mid w
              = (if mid \<le> 80 then Step_accept else Step_reject, w') \<and> healthy w')"
    using synthetic_threshold_body by blast
  have "fst (binary_search_user_count (synthetic_bench (threshold_cells 80)) ''config.json'' 76 86
            results0 world0) = Inr 80"
    by (rule binary_search_returns_threshold [where Inv = healthy, OF healthy_world0 step]) simp_all
  then show ?thesis by simp
qed

text \<open>
  C4. The binary search is a total function of its bounds and of the outcomes of its
  trials: it makes at most \<open>high - low\<close> trials. It returns \<open>low - 1\<close> for the value that
  \<open>low\<close> has when the loop is left: at once and without a trial when \<open>low < high\<close> does not
  hold, and after a trial that fails. An accepted or a rejected trial continues the search
  on a strictly smaller interval. The loop is left with \<open>low \<le> high\<close> (for bounds that
  started so), and with \<open>low < high\<close> only after a failed trial. An exception inside a trial
  (a config file that cannot be read, a cell that is not a number) leaves the function.
\<close>

theorem binary_search_returns_low_minus_one:
  "(\<not> low < high \<longrightarrow>
      binary_search_user_count echoswift config_file low high result_dir w = (Inr (low - 1), w))
   \<and> (low < high \<longrightarrow>
        binary_search_body echoswift config_file result_dir ((low + high) div 2) w = (Step_break, w') \<longrightarrow>
        binary_search_user_count echoswift config_file low high result_dir w = (Inr (low - 1), w'))
   \<and> (low < high \<longrightarrow>
        binary_search_body echoswift config_file result_dir ((low + high) div 2) w = (Step_accept, w') \<longrightarrow>
        binary_search_user_count echoswift config_file low high result_dir w
          = binary_search_user_count echoswift config_file ((low + high) div 2 + 1) high result_dir w'
        \<and> high - ((low + high) div 2 + 1) < high - low)
   \<and> (low < high \<longrightarrow>
        binary_search_body echoswift config_file result_dir ((low + high) div 2) w = (Step_reject, w') \<longrightarrow>
        binary_search_user_count echoswift config_file low high result_dir w
          = binary_search_user_count echoswift config_file low ((low + high) div 2) result_dir w'
        \<and> (low + high) div 2 - low < high - low)
   \<and> (low < high \<longrightarrow>
        binary_search_body echoswift config_file result_dir ((low + high) div 2) w = (Step_raise e, w') \<longrightarrow>
        binary_search_user_count echoswift config_file low high result_dir w = (Inl e, w'))
   \<and> length (launches (snd (binary_search_user_count echoswift config_file low high result_dir w)))
        \<le> length (launches w) + nat (high - low)
   \<and> (binary_search_loop echoswift config_file result_dir low high w = (Inr (l, h), w'') \<longrightarrow>
        binary_search_user_count echoswift config_file low high result_dir w = (Inr (l - 1), w'')
        \<and> low \<le> l \<and> h \<le> high \<and> (low \<le> high \<longrightarrow> l \<le> h)
        \<and> (l < h \<longrightarrow> (\<exists>w1. w'' = say Binary_search_run_failed w1
                             \<or> w'' = say Binary_search_extract_failed w1)))"
proof -
  have snd_eq: "snd (binary_search_user_count echoswift config_file low high result_dir w)
      = snd (binary_search_loop echoswift config_file result_dir low high w)"
    by (simp add: binary_search_user_count_def split: prod.split sum.split)
  have trials: "length (launches (snd (binary_search_user_count echoswift config_file low high result_dir w)))
        \<le> length (launches w) + nat (high - low)"
    unfolding snd_eq by (rule binary_search_loop_trials)
  have stop: "\<not> low < high \<longrightarrow>
      binary_search_user_count echoswift config_file low high result_dir w = (Inr (low - 1), w)"
    by (simp add: binary_search_user_count_def binary_search_loop_stop)
  have steps: "low < high \<Longrightarrow>
      binary_search_body echoswift config_file result_dir ((low + high) div 2) w = (st, w') \<Longrightarrow>
      binary_search_user_count echoswift config_file low high result_dir w
        = (case st of
             Step_raise e \<Rightarrow> (Inl e, w')
           | Step_break \<Rightarrow> (Inr (low - 1), w')
           | Step_accept \<Rightarrow>
               binary_search_user_count echoswift config_file ((low + high) div 2 + 1) high result_dir w'
           | Step_reject \<Rightarrow>
               binary_search_user_count echoswift config_file low ((low + high) div 2) result_dir w')" for st
    by (simp add: binary_search_user_count_def binary_search_loop_step split: step.split)
  have exit: "binary_search_loop echoswift config_file result_dir low high w = (Inr (l, h), w'') \<longrightarrow>
        binary_search_user_count echoswift config_file low high result_dir w = (Inr (l - 1), w'')
        \<and> low \<le> l \<and> h \<le> high \<and> (low \<le> high \<longrightarrow> l \<le> h)
        \<and> (l < h \<longrightarrow> (\<exists>w1. w'' = say Binary_search_run_failed w1
                             \<or> w'' = say Binary_search_extract_failed w1))"
    using binary_search_loop_bounds [of echoswift config_file result_dir low high w l h w'']
      binary_search_loop_early_exit [of echoswift config_file result_dir low high w l h w'']
    by (simp add: binary_search_user_count_def)
  have arith: "low < high \<longrightarrow> high - ((low + high) div 2 + 1) < high - low
      \<and> (low + high) div 2 - low < high - low"
    by auto
  from stop steps [of Step_break] steps [of Step_accept] steps [of Step_reject]
    steps [of "Step_raise e"] trials exit arith
  show ?thesis by simp
qed


theorem binary_search_returns_low_minus_one_witness:
  "binary_search_user_count (synthetic_bench (threshold_cells 80)) ''config.json'' 5 5 results0 world0
     = (Inr 4, world0)
   \<and> fst (binary_search_user_count (synthetic_bench only_56_cells) ''config.json'' 0 56 results0 world0)
     = Inr (- 1)
   \<and> fst (binary_search_user_count (synthetic_bench (threshold_cells 80)) ''config.json'' 76 80 results0 world0)
     = fst (binary_search_user_count (synthetic_bench (threshold_cells 80)) ''config.json'' 79 80 results0
         (snd (binary_search_body (synthetic_bench (threshold_cells 80)) ''config.json'' results0 78 world0)))
   \<and> fst (binary_search_user_count (synthetic_bench (threshold_cells 80)) ''config.json'' 76 86 results0 world0)
     = fst (binary_search_user_count (synthetic_bench (threshold_cells 80)) ''config.json'' 76 81 results0
         (snd (binary_search_body (synthetic_bench (threshold_cells 80)) ''config.json'' results0 81 world0)))
   \<and> fst (binary_search_user_count (synthetic_bench text_cells) ''config.json'' 0 56 results0 world0)
     = Inl TypeError
   \<and> fst (binary_search_user_count (synthetic_bench (threshold_cells 80)) ''config.json'' 76 86 results0 world0)
     = Inr 80
   \<and> length (launches (snd (binary_search_user_count (synthetic_bench (threshold_cells 80))
         ''config.json'' 76 86 results0 world0))) \<le> 10"
proof -
  let ?T = "synthetic_bench (threshold_cells 80)"
  let ?cf = "''config.json''"
  let ?body = "\<lambda>e mid. binary_search_body e ?cf results0 mid world0"
  note split_cases = binary_search_returns_low_minus_one
  have pair: "\<And>p x. fst p = x \<Longrightarrow> p = (x, snd p)" by auto
  have stop: "binary_search_user_count ?T ?cf 5 5 results0 world0 = (Inr 4, world0)"
    using split_cases [where low = 5 and high = 5 and echoswift = ?T and config_file = ?cf
        and result_dir = results0 and w = world0]
    by simp
  have "fst (?body (synthetic_bench only_56_cells) 28) = Step_break" by code_simp
  then have "?body (synthetic_bench only_56_cells) 28
      = (Step_break, snd (?body (synthetic_bench only_56_cells) 28))" by (rule pair)
  then have break: "fst (binary_search_user_count (synthetic_bench only_56_cells) ?cf 0 56 results0 world0)
      = Inr (- 1)"
    using split_cases [where low = 0 and high = 56 and echoswift = "synthetic_bench only_56_cells"
        and config_file = ?cf and result_dir = results0 and w = world0
        and w' = "snd (?body (synthetic_bench only_56_cells) 28)"]
    by simp
  have "fst (?body ?T 78) = Step_accept" by code_simp
  then have "?body ?T 78 = (Step_accept, snd (?body ?T 78))" by (rule pair)
  then have accept: "fst (binary_search_user_count ?T ?cf 76 80 results0 world0)
      = fst (binary_search_user_count ?T ?cf 79 80 results0 (snd (?body ?T 78)))"
    using split_cases [where low = 76 and high = 80 and echoswift = ?T
        and config_file = ?cf and result_dir = results0 and w = world0
        and w' = "snd (?body ?T 78)"]
    by simp
  have "fst (?body ?T 81) = Step_reject" by code_simp
  then have "?body ?T 81 = (Step_reject, snd (?body ?T 81))" by (rule pair)
  then have reject: "fst (binary_search_user_count ?T ?cf 76 86 results0 world0)
      = fst (binary_search_user_count ?T ?cf 76 81 results0 (snd (?body ?T 81)))"
    using split_cases [where low = 76 and high = 86 and echoswift = ?T
        and config_file = ?cf and result_dir = results0 and w = world0
        and w' = "snd (?body ?T 81)"]
    by simp
  have "fst (?body (synthetic_bench text_cells) 28) = Step_raise TypeError" by code_simp
  then have "?body (synthetic_bench text_cells) 28
      = (Step_raise TypeError, snd (?body (synthetic_bench text_cells) 28))" by (rule pair)
  then have raise: "fst (binary_search_user_count (synthetic_bench text_cells) ?cf 0 56 results0 world0)
      = Inl TypeError"
    using split_cases [where low = 0 and high = 56 and echoswift = "synthetic_bench text_cells"
        and config_file = ?cf and result_dir = results0 and w = world0 and e = TypeError
        and w' = "snd (?body (synthetic_bench text_cells) 28)"]
    by simp
  have "fst (binary_search_loop ?T ?cf results0 76 86 world0) = Inr (81, 81)" by code_simp
  then have "binary_search_loop ?T ?cf results0 76 86 world0
      = (Inr (81, 81), snd (binary_search_loop ?T ?cf results0 76 86 world0))" by (rule pair)
  then have exit: "fst (binary_search_user_count ?T ?cf 76 86 results0 world0) = Inr 80"
    using split_cases [where low = 76 and high = 86 and echoswift = ?T
        and config_file = ?cf and result_dir = results0 and w = world0 and l = 81 and h = 81
        and w'' = "snd (binary_search_loop ?T ?cf results0 76 86 world0)"]
    by simp
  have "launches world0 = []" by (simp add: launches_def world0_def)
  then have trials: "length (launches (snd (binary_search_user_count ?T ?cf 76 86 results0 world0))) \<le> 10"
    using split_cases [where low = 76 and high = 86 and echoswift = ?T
        and config_file = ?cf and result_dir = results0 and w = world0]
    by simp
  from stop break accept reject raise exit trials show ?thesis by blast
qed


section \<open>Properties of the linear probe\<close>

lemma linear_probe_accept:
  "probe_body echoswift config_file config result_dir user_count w = (Probe_accept m bt, w')
   \<Longrightarrow> linear_probe echoswift (Suc fuel) config_file config result_dir user_count
         previous_user_count optimal_user_count final_metrics w
       = linear_probe echoswift fuel config_file config result_dir (user_count + 10)
           user_count user_count (Some m) w'"
  by (simp add: increment_def)

lemma linear_probe_reject:
  "probe_body echoswift config_file config result_dir user_count w = (Probe_reject bt, w')
   \<Longrightarrow> linear_probe echoswift (Suc fuel) config_file config result_dir user_count
         previous_user_count optimal_user_count final_metrics w
       = (Some (Probe_rejected previous_user_count user_count bt), w')"
  by simp

lemma probe_body_launches:
  "probe_body echoswift config_file config result_dir user_count w = (r, w')
   \<Longrightarrow> launches w' = launches w @ [(config_file, Some (config\<lparr>cfg_user_counts := Some [user_count]\<rparr>))]"
  using launches_probe_body [of echoswift config_file config result_dir user_count w] by simp

text \<open>
  C5. From the default start (\<open>user_count = 56\<close>, \<open>increment = 10\<close>,
  \<open>previous_user_count = 0\<close>), with every trial below 86 accepted and every trial from 86
  on rejected, Phase 1 launches the benchmark for 56, 66, 76 and 86 in that order, accepts
  the first three, rejects 86 and gives the bounds 76 and 86 to the binary search.
\<close>

theorem linear_probe_visits_56_66_76_86:
  assumes "json_files (disk w0) config_file = Some config"
    and "cfg_out_dir config = Some od" and "od \<noteq> []"
    and "mkdir [Name od, Name ''Results''] (disk w0) = Inr d1"
    and "Inv (w0\<lparr>disk := d1\<rparr>)"
    and "\<forall>w n. Inv w \<longrightarrow>
           (\<exists>w'. Inv w' \<and>
              (if n < 86
               then \<exists>m bt. probe_body echoswift config_file config [Name od, Name ''Results''] n w
                             = (Probe_accept m bt, w')
               else \<exists>bt. probe_body echoswift config_file config [Name od, Name ''Results''] n w
                           = (Probe_reject bt, w')))"
    and "4 \<le> fuel"
  shows "\<exists>w1 w2 w3 w4 m1 m2 m3 b1 b2 b3 b4.
           probe_body echoswift config_file config [Name od, Name ''Results''] 56 (w0\<lparr>disk := d1\<rparr>)
             = (Probe_accept m1 b1, w1)
         \<and> probe_body echoswift config_file config [Name od, Name ''Results''] 66 w1
             = (Probe_accept m2 b2, w2)
         \<and> probe_body echoswift config_file config [Name od, Name ''Results''] 76 w2
             = (Probe_accept m3 b3, w3)
         \<and> probe_body echoswift config_file config [Name od, Name ''Results''] 86 w3
             = (Probe_reject b4, w4)
         \<and> linear_probe echoswift fuel config_file config [Name od, Name ''Results''] 56 0 0 None
               (w0\<lparr>disk := d1\<rparr>)
             = (Some (Probe_rejected 76 86 b4), w4)
         \<and> launches w4 = launches w0 @
               map (\<lambda>n. (config_file, Some (config\<lparr>cfg_user_counts := Some [n]\<rparr>))) [56, 66, 76, 86]
         \<and> adjust_user_count echoswift fuel config_file w0
             = (case phase2 echoswift config_file 76 86 [Name od, Name ''Results''] b4 w4 of
                  (r, w5) \<Rightarrow> (Some r, w5))"
proof -
  let ?rd = "[Name od, Name ''Results'']"
  let ?body = "probe_body echoswift config_file config ?rd"
  note step = assms(6) [rule_format]
  from step [OF assms(5), of 56] obtain w1 m1 b1 where
    s1: "?body 56 (w0\<lparr>disk := d1\<rparr>) = (Probe_accept m1 b1, w1)" and i1: "Inv w1" by auto
  from step [OF i1, of 66] obtain w2 m2 b2 where
    s2: "?body 66 w1 = (Probe_accept m2 b2, w2)" and i2: "Inv w2" by auto
  from step [OF i2, of 76] obtain w3 m3 b3 where
    s3: "?body 76 w2 = (Probe_accept m3 b3, w3)" and i3: "Inv w3" by auto
  from step [OF i3, of 86] obtain w4 b4 where
    s4: "?body 86 w3 = (Probe_reject b4, w4)" by auto
  from assms(7) obtain k where "fuel = 4 + k"
    by (auto simp: le_iff_add)
  then have fuel: "fuel = Suc (Suc (Suc (Suc k)))" by simp
  have probe: "linear_probe echoswift fuel config_file config ?rd 56 0 0 None (w0\<lparr>disk := d1\<rparr>)
      = (Some (Probe_rejected 76 86 b4), w4)"
    unfolding fuel
    using linear_probe_accept [OF s1] linear_probe_accept [OF s2] linear_probe_accept [OF s3]
      linear_probe_reject [OF s4]
    by simp
  have launched: "launches w4 = launches w0 @
      map (\<lambda>n. (config_file, Some (config\<lparr>cfg_user_counts := Some [n]\<rparr>))) [56, 66, 76, 86]"
    using probe_body_launches [OF s1] probe_body_launches [OF s2] probe_body_launches [OF s3]
      probe_body_launches [OF s4]
    by simp
  have adjust: "adjust_user_count echoswift fuel config_file w0
      = (case phase2 echoswift config_file 76 86 ?rd b4 w4 of (r, w5) \<Rightarrow> (Some r, w5))"
    using assms(1-4) probe by (simp add: adjust_user_count_def)
  show ?thesis
    apply (intro exI conjI)
          apply (rule s1)
         apply (rule s2)
        apply (rule s3)
       apply (rule s4)
      apply (rule probe)
     apply (rule launched)
    apply (rule adjust)
    done
qed



theorem linear_probe_visits_56_66_76_86_witness:
  "\<exists>d1 w4 bt.
      mkdir results0 (disk world0) = Inr d1
    \<and> linear_probe (synthetic_bench (threshold_cells 85)) 4 ''config.json'' config0 results0 56 0 0 None
          (world0\<lparr>disk := d1\<rparr>)
        = (Some (Probe_rejected 76 86 bt), w4)
    \<and> launches w4
        = map (\<lambda>n. (''config.json'', Some (config0\<lparr>cfg_user_counts := Some [n]\<rparr>))) [56, 66, 76, 86]"
proof -
  let ?B = "synthetic_bench (threshold_cells 85)"
  define d1 where "d1 = disk0\<lparr>dirs := dirs disk0 \<union> set (prefixes results0)\<rparr>"
  have cfg: "json_files (disk world0) ''config.json'' = Some config0"
    by (simp add: world0_def disk0_def)
  have od: "cfg_out_dir config0 = Some ''out''" "''out'' \<noteq> []"
    by (simp_all add: config0_def)
  have made: "mkdir [Name ''out'', Name ''Results''] (disk world0) = Inr d1"
    by (simp add: mkdir_def world0_def disk0_def d1_def results0_def)
  have inv: "healthy (world0\<lparr>disk := d1\<rparr>)"
    by (simp add: healthy_def world0_def disk0_def d1_def config0_def results0_def)
  have step: "\<forall>w n. healthy w \<longrightarrow>
           (\<exists>w'. healthy w' \<and>
              (if n < 86
               then \<exists>m bt. probe_body ?B ''config.json'' config0 [Name ''out'', Name ''Results''] n w
                             = (Probe_accept m bt, w')
               else \<exists>bt. probe_body ?B ''config.json'' config0 [Name ''out'', Name ''Results''] n w
                           = (Probe_reject bt, w')))"
  proof (intro allI impI)
    fix w :: world and n :: int
    assume "healthy w"
    from synthetic_threshold_probe [OF this od(1), of 85 n]
    show "\<exists>w'. healthy w' \<and>
              (if n < 86
               then \<exists>m bt. probe_body ?B ''config.json'' config0 [Name ''out'', Name ''Results''] n w
                             = (Probe_accept m bt, w')
               else \<exists>bt. probe_body ?B ''config.json'' config0 [Name ''out'', Name ''Results''] n w
                           = (Probe_reject bt, w'))"
      by (cases "n < 86") (auto simp: results0_def)
  qed
  from linear_probe_visits_56_66_76_86 [where Inv = healthy, OF cfg od made inv step order_refl]
  obtain w4 b4 where
    "linear_probe ?B 4 ''config.json'' config0 [Name ''out'', Name ''Results''] 56 0 0 None
        (world0\<lparr>disk := d1\<rparr>) = (Some (Probe_rejected 76 86 b4), w4)"
    "launches w4 = launches world0 @
        map (\<lambda>n. (''config.json'', Some (config0\<lparr>cfg_user_counts := Some [n]\<rparr>))) [56, 66, 76, 86]"
    by blast
  moreover have "launches world0 = []" by (simp add: launches_def world0_def)
  ultimately show ?thesis
    using made by (auto simp: results0_def)
qed

section \<open>The config document at every launch\<close>

lemma single_count_dispatched [simp]:
  "single_count (config_file, Some (c\<lparr>cfg_user_counts := Some [n]\<rparr>))"
  "dispatched n (config_file, Some (c\<lparr>cfg_user_counts := Some [n]\<rparr>))"
  by (simp_all add: single_count_def dispatched_def)

lemma linear_probe_launches:
  "\<exists>new. launches (snd (linear_probe echoswift fuel config_file config result_dir user_count
                previous_user_count optimal_user_count final_metrics w)) = launches w @ new
     \<and> list_all single_count new"
proof (induction fuel arbitrary: user_count previous_user_count optimal_user_count final_metrics w)
  case 0
  show ?case by simp
next
  case (Suc fuel)
  obtain r w1 where body: "probe_body echoswift config_file config result_dir user_count w = (r, w1)"
    by (cases "probe_body echoswift config_file config result_dir user_count w")
  note one = probe_body_launches [OF body]
  show ?case
  proof (cases r)
    case (Probe_accept m bt)
    from Suc.IH [of "user_count + increment" user_count user_count "Some m" w1]
    obtain new where "launches (snd (linear_probe echoswift fuel config_file config result_dir
        (user_count + increment) user_count user_count (Some m) w1)) = launches w1 @ new"
      "list_all single_count new" by blast
    with body Probe_accept one show ?thesis by simp
  qed (use body one in simp_all)
qed

lemma continuous_loop_launches:
  "\<exists>new. launches (snd (continuous_loop echoswift fuel config_file n result_dir w)) = launches w @ new
     \<and> list_all (dispatched n) new"
proof (induction fuel arbitrary: w)
  case 0
  show ?case by simp
next
  case (Suc fuel)
  obtain r w1 where body: "continuous_body echoswift config_file n result_dir w = (r, w1)"
    by (cases "continuous_body echoswift config_file n result_dir w")
  have "\<exists>new. launches w1 = launches w @ new \<and> list_all (dispatched n) new"
    using launches_continuous_body [of echoswift config_file n result_dir w] body
    by (cases "json_files (disk w) config_file") simp_all
  then obtain new1 where one: "launches w1 = launches w @ new1" "list_all (dispatched n) new1"
    by blast
  show ?case
  proof (cases r)
    case Cont_again
    from Suc.IH [of w1] obtain new where
      "launches (snd (continuous_loop echoswift fuel config_file n result_dir w1)) = launches w1 @ new"
      "list_all (dispatched n) new" by blast
    with body Cont_again one show ?thesis by simp
  qed (use body one in simp_all)
qed

lemma launches_finish [simp]:
  "launches (snd (finish config_file optimal_user_count final_metrics benchmark_time w)) = launches w"
  by (simp add: finish_def split: option.split)

lemma phase2_launches:
  "\<exists>new. launches (snd (phase2 echoswift config_file low high result_dir bt w)) = launches w @ new
     \<and> list_all single_count new"
proof -
  obtain r w1 where loop: "binary_search_loop echoswift config_file result_dir low high w = (r, w1)"
    by (cases "binary_search_loop echoswift config_file result_dir low high w")
  from binary_search_loop_launches [of echoswift config_file result_dir low high w] loop
  obtain new where new: "launches w1 = launches w @ new" "list_all single_count new" by auto
  show ?thesis
  proof (cases r)
    case (Inl e)
    with loop new show ?thesis
      by (simp add: phase2_def binary_search_user_count_def)
  next
    case (Inr lh)
    obtain l h where "lh = (l, h)" by (cases lh)
    obtain m w2 where ex: "extract_metrics_from_avg_response result_dir (l - 1) w1 = (m, w2)"
      by (cases "extract_metrics_from_avg_response result_dir (l - 1) w1")
    obtain r3 w3 where fin: "finish config_file (l - 1) (Some m) bt w2 = (r3, w3)"
      by (cases "finish config_file (l - 1) (Some m) bt w2")
    have "launches w3 = launches w1"
      using extract_launches [OF ex] launches_finish [of config_file "l - 1" "Some m" bt w2] fin
      by simp
    with Inr \<open>lh = (l, h)\<close> loop new ex fin show ?thesis
      by (simp add: phase2_def binary_search_user_count_def)
  qed
qed


lemma adjust_user_count_launches:
  "\<exists>new. launches (snd (adjust_user_count echoswift fuel config_file w)) = launches w @ new
     \<and> list_all single_count new"
proof (cases "json_files (disk w) config_file")
  case None
  then show ?thesis by (simp add: adjust_user_count_def)
next
  case (Some config)
  show ?thesis
  proof (cases "cfg_out_dir config")
    case None
    with Some show ?thesis by (simp add: adjust_user_count_def)
  next
    case od: (Some od)
    show ?thesis
    proof (cases "od = []")
      case True
      with Some od show ?thesis by (simp add: adjust_user_count_def)
    next
      case False
      show ?thesis
      proof (cases "mkdir [Name od, Name ''Results''] (disk w)")
        case (Inl e)
        with Some od False show ?thesis by (simp add: adjust_user_count_def)
      next
        case (Inr d1)
        obtain r w1 where probe: "linear_probe echoswift fuel config_file config
            [Name od, Name ''Results''] 56 0 0 None (w\<lparr>disk := d1\<rparr>) = (r, w1)"
          by (cases "linear_probe echoswift fuel config_file config
            [Name od, Name ''Results''] 56 0 0 None (w\<lparr>disk := d1\<rparr>)")
        from linear_probe_launches [of echoswift fuel config_file config
            "[Name od, Name ''Results'']" 56 0 0 None "w\<lparr>disk := d1\<rparr>"] probe
        obtain new1 where new1: "launches w1 = launches w @ new1" "list_all single_count new1"
          by auto
        have unfold: "adjust_user_count echoswift fuel config_file w
          = (case r of
               None \<Rightarrow> (None, w1)
             | Some (Probe_raised e) \<Rightarrow> (Some (Inl e), w1)
             | Some (Probe_broke optimal_user_count final_metrics benchmark_time) \<Rightarrow>
                 (case finish config_file optimal_user_count final_metrics benchmark_time w1 of
                    (r, w'') \<Rightarrow> (Some (Inr r), w''))
             | Some (Probe_rejected previous_user_count user_count benchmark_time) \<Rightarrow>
                 (case phase2 echoswift config_file previous_user_count user_count
                         [Name od, Name ''Results''] benchmark_time w1 of
                    (r, w'') \<Rightarrow> (Some r, w'')))"
          using Some od False Inr probe by (simp add: adjust_user_count_def)
        show ?thesis
        proof (cases r)
          case None
          with unfold new1 show ?thesis by simp
        next
          case (Some ex)
          show ?thesis
          proof (cases ex)
            case (Probe_raised e)
            with unfold Some new1 show ?thesis by simp
          next
            case (Probe_broke optimal_user_count final_metrics benchmark_time)
            obtain r2 w2 where fin:
              "finish config_file optimal_user_count final_metrics benchmark_time w1 = (r2, w2)"
              by (cases "finish config_file optimal_user_count final_metrics benchmark_time w1")
            have "launches w2 = launches w1"
              using launches_finish [of config_file optimal_user_count final_metrics benchmark_time w1] fin
              by simp
            with unfold Some Probe_broke new1 fin show ?thesis by simp
          next
            case (Probe_rejected previous_user_count user_count benchmark_time)
            obtain r2 w2 where ph: "phase2 echoswift config_file previous_user_count user_count
                [Name od, Name ''Results''] benchmark_time w1 = (r2, w2)"
              by (cases "phase2 echoswift config_file previous_user_count user_count
                [Name od, Name ''Results''] benchmark_time w1")
            from phase2_launches [of echoswift config_file previous_user_count user_count
                "[Name od, Name ''Results'']" benchmark_time w1] ph
            obtain new2 where "launches w2 = launches w1 @ new2" "list_all single_count new2"
              by auto
            with unfold Some Probe_rejected new1 ph show ?thesis by simp
          qed
        qed
      qed
    qed
  qed
qed

text \<open>
  C6. The entry that a launch leaves in the trace holds what the config file held when
  the benchmark was started. In Phase 1, in Phase 2 and in the continuous runner, one pass
  of the loop writes the config document with \<^verbatim>\<open>"user_counts"\<close> set to the one-element list
  of the count of its trial and then launches the benchmark, once. So every launch of a
  whole search finds a one-element list there, and every launch of the continuous runner
  finds the list of the count it runs at.
\<close>

theorem user_counts_written_before_launch:
  "launches (snd (run_benchmark echoswift config_file w))
     = launches w @ [(config_file, json_files (disk w) config_file)]
   \<and> launches (snd (probe_body echoswift config_file config result_dir user_count w))
     = launches w @ [(config_file, Some (config\<lparr>cfg_user_counts := Some [user_count]\<rparr>))]
   \<and> (json_files (disk w) config_file = Some c \<longrightarrow>
        launches (snd (binary_search_body echoswift config_file result_dir mid w))
          = launches w @ [(config_file, Some (c\<lparr>cfg_user_counts := Some [mid]\<rparr>))])
   \<and> (json_files (disk w) config_file = Some c \<longrightarrow>
        launches (snd (continuous_body echoswift config_file n result_dir w))
          = launches w @ [(config_file, Some (c\<lparr>cfg_user_counts := Some [n]\<rparr>))])
   \<and> (\<exists>new. launches (snd (adjust_user_count echoswift fuel config_file w)) = launches w @ new
          \<and> list_all single_count new)
   \<and> (\<exists>new. launches (snd (run_benchmark_with_incremental_requests echoswift fuel config_file n
                 result_dir w)) = launches w @ new
          \<and> list_all (dispatched n) new)"
proof -
  have "\<exists>new. launches (snd (run_benchmark_with_incremental_requests echoswift fuel config_file n
                 result_dir w)) = launches w @ new \<and> list_all (dispatched n) new"
    using continuous_loop_launches [of echoswift fuel config_file n result_dir
        "say (Starting_continuous n) w"]
    by (simp add: run_benchmark_with_incremental_requests_def)
  then show ?thesis
    using adjust_user_count_launches [of echoswift fuel config_file w]
    by (simp add: launches_probe_body launches_binary_search_body launches_continuous_body)
qed

theorem user_counts_written_before_launch_witness:
  "launches (snd (binary_search_body (synthetic_bench (threshold_cells 80)) ''config.json'' results0 81 world0))
     = [(''config.json'', Some (config0\<lparr>cfg_user_counts := Some [81]\<rparr>))]
   \<and> launches (snd (continuous_body (synthetic_bench (threshold_cells 80)) ''config.json'' 80 results0 world0))
     = [(''config.json'', Some (config0\<lparr>cfg_user_counts := Some [80]\<rparr>))]"
proof -
  have cfg: "json_files (disk world0) ''config.json'' = Some config0"
    by (simp add: world0_def disk0_def)
  have none: "launches world0 = []"
    by (simp add: launches_def world0_def)
  from user_counts_written_before_launch [where w = world0 and config_file = "''config.json''"
      and c = config0 and echoswift = "synthetic_bench (threshold_cells 80)" and result_dir = results0
      and mid = 81 and n = 80] cfg none
  show ?thesis by simp
qed

section \<open>Properties of the metrics extractor\<close>






section \<open>Properties of the report generator\<close>




section \<open>Properties of the continuous runner\<close>

lemma truthy_iff: "truthy x = (x \<noteq> PNone \<and> x \<noteq> Num 0 \<and> x \<noteq> Str [])"
  by (cases x) auto

text \<open>
  C10. In a pass of the continuous runner whose launch succeeded, the loop goes on, after
  the report generator and a sleep of five seconds, exactly when the first four extracted
  metrics are all true in Python's sense; a true metric is neither \<^verbatim>\<open>None\<close> nor zero. When one
  of them is false, and a zero that was extracted without any failure is, the loop stops
  at once: nothing follows the extraction but the message, so no record is written.
\<close>

theorem continuous_runner_stops_on_falsy_metric:
  "(json_files (disk w) config_file = Some config \<longrightarrow>
    run_benchmark echoswift config_file
        (w\<lparr>disk := write_json config_file (config\<lparr>cfg_user_counts := Some [n]\<rparr>) (disk w)\<rparr>)
      = ((Some code, bt), w_run) \<longrightarrow>
    extract_metrics_from_avg_response result_dir n (copy_avg_response config_file n w_run)
      = ((ttft, latency, latency_per_token, throughput, total_throughput), w_read) \<longrightarrow>
      continuous_body echoswift config_file n result_dir w
        = (if truthy ttft \<and> truthy latency \<and> truthy latency_per_token \<and> truthy throughput
           then (Cont_again,
                 (generate_summary_report config_file n
                    (ttft, latency, latency_per_token, throughput, total_throughput) bt w_read)
                 \<lparr>events := events (generate_summary_report config_file n
                    (ttft, latency, latency_per_token, throughput, total_throughput) bt w_read) @ [Sleep 5]\<rparr>)
           else (Cont_break, say Continuous_extract_failed w_read))
      \<and> (\<not> (truthy ttft \<and> truthy latency \<and> truthy latency_per_token \<and> truthy throughput) \<longrightarrow>
           continuous_loop echoswift (Suc fuel) config_file n result_dir w
             = (Some (Inr ()), say Continuous_extract_failed w_read))
      \<and> (fst (continuous_body echoswift config_file n result_dir w) = Cont_again \<longrightarrow>
           (\<forall>x \<in> {ttft, latency, latency_per_token, throughput}. x \<noteq> PNone \<and> x \<noteq> Num 0)))
   \<and> \<not> truthy PNone \<and> \<not> truthy (Num 0)"
proof -
  have body: "json_files (disk w) config_file = Some config \<Longrightarrow>
    run_benchmark echoswift config_file
        (w\<lparr>disk := write_json config_file (config\<lparr>cfg_user_counts := Some [n]\<rparr>) (disk w)\<rparr>)
      = ((Some code, bt), w_run) \<Longrightarrow>
    extract_metrics_from_avg_response result_dir n (copy_avg_response config_file n w_run)
      = ((ttft, latency, latency_per_token, throughput, total_throughput), w_read) \<Longrightarrow>
      continuous_body echoswift config_file n result_dir w
        = (if truthy ttft \<and> truthy latency \<and> truthy latency_per_token \<and> truthy throughput
           then (Cont_again,
                 (generate_summary_report config_file n
                    (ttft, latency, latency_per_token, throughput, total_throughput) bt w_read)
                 \<lparr>events := events (generate_summary_report config_file n
                    (ttft, latency, latency_per_token, throughput, total_throughput) bt w_read) @ [Sleep 5]\<rparr>)
           else (Cont_break, say Continuous_extract_failed w_read))"
    by (simp add: continuous_body_def Let_def)
  show ?thesis
  proof (intro conjI impI)
    assume h: "json_files (disk w) config_file = Some config"
      "run_benchmark echoswift config_file
        (w\<lparr>disk := write_json config_file (config\<lparr>cfg_user_counts := Some [n]\<rparr>) (disk w)\<rparr>)
      = ((Some code, bt), w_run)"
      "extract_metrics_from_avg_response result_dir n (copy_avg_response config_file n w_run)
      = ((ttft, latency, latency_per_token, throughput, total_throughput), w_read)"
    note b = body [OF h]
    show "continuous_body echoswift config_file n result_dir w
        = (if truthy ttft \<and> truthy latency \<and> truthy latency_per_token \<and> truthy throughput
           then (Cont_again,
                 (generate_summary_report config_file n
                    (ttft, latency, latency_per_token, throughput, total_throughput) bt w_read)
                 \<lparr>events := events (generate_summary_report config_file n
                    (ttft, latency, latency_per_token, throughput, total_throughput) bt w_read) @ [Sleep 5]\<rparr>)
           else (Cont_break, say Continuous_extract_failed w_read))"
      by (rule b)
    show "continuous_loop echoswift (Suc fuel) config_file n result_dir w
             = (Some (Inr ()), say Continuous_extract_failed w_read)"
      if "\<not> (truthy ttft \<and> truthy latency \<and> truthy latency_per_token \<and> truthy throughput)"
    proof -
      from b have "continuous_body echoswift config_file n result_dir w
          = (Cont_break, say Continuous_extract_failed w_read)"
        unfolding if_not_P [OF that] .
      then show ?thesis by simp
    qed
    show "\<forall>x \<in> {ttft, latency, latency_per_token, throughput}. x \<noteq> PNone \<and> x \<noteq> Num 0"
      if "fst (continuous_body echoswift config_file n result_dir w) = Cont_again"
    proof -
      from that b have "truthy ttft \<and> truthy latency \<and> truthy latency_per_token \<and> truthy throughput"
        by (simp split: if_splits)
      then show ?thesis by (auto simp: truthy_iff)
    qed
  qed simp_all
qed


theorem continuous_runner_stops_on_falsy_metric_witness:
  "fst (continuous_body (synthetic_bench zero_cells) ''config.json'' 56 results0 world0) = Cont_break
   \<and> fst (continuous_loop (synthetic_bench zero_cells) (Suc 0) ''config.json'' 56 results0 world0)
       = Some (Inr ())
   \<and> fst (continuous_body (synthetic_bench (threshold_cells 80)) ''config.json'' 56 results0 world0)
       = Cont_again"
proof -
  let ?Z = "synthetic_bench zero_cells"
  let ?T = "synthetic_bench (threshold_cells 80)"
  let ?w1 = "world0\<lparr>disk := write_json ''config.json'' (config0\<lparr>cfg_user_counts := Some [56]\<rparr>) (disk world0)\<rparr>"
  have pair: "\<And>p x. fst p = x \<Longrightarrow> p = (x, snd p)" by auto
  have cfg: "json_files (disk world0) ''config.json'' = Some config0"
    by (simp add: world0_def disk0_def)
  have "fst (run_benchmark ?Z ''config.json'' ?w1) = (Some 0, Some 1)" by code_simp
  then have run: "run_benchmark ?Z ''config.json'' ?w1
      = ((Some 0, Some 1), snd (run_benchmark ?Z ''config.json'' ?w1))" by (rule pair)
  have "fst (extract_metrics_from_avg_response results0 56
          (copy_avg_response ''config.json'' 56 (snd (run_benchmark ?Z ''config.json'' ?w1))))
      = (Num 100, Num 20, Num 500, Num 0, Num 0)" by code_simp
  then have reads: "extract_metrics_from_avg_response results0 56
          (copy_avg_response ''config.json'' 56 (snd (run_benchmark ?Z ''config.json'' ?w1)))
      = ((Num 100, Num 20, Num 500, Num 0, Num 0),
         snd (extract_metrics_from_avg_response results0 56
          (copy_avg_response ''config.json'' 56 (snd (run_benchmark ?Z ''config.json'' ?w1)))))"
    by (rule pair)
  from continuous_runner_stops_on_falsy_metric [where w = world0 and config_file = "''config.json''"
      and config = config0 and echoswift = ?Z and n = 56 and result_dir = results0 and fuel = 0
      and code = 0 and bt = "Some 1" and w_run = "snd (run_benchmark ?Z ''config.json'' ?w1)"
      and ttft = "Num 100" and latency = "Num 20" and latency_per_token = "Num 500"
      and throughput = "Num 0" and total_throughput = "Num 0"
      and w_read = "snd (extract_metrics_from_avg_response results0 56
          (copy_avg_response ''config.json'' 56 (snd (run_benchmark ?Z ''config.json'' ?w1))))"]
    cfg run reads
  have stops: "fst (continuous_body ?Z ''config.json'' 56 results0 world0) = Cont_break
      \<and> fst (continuous_loop ?Z (Suc 0) ''config.json'' 56 results0 world0) = Some (Inr ())"
    by simp
  have "fst (run_benchmark ?T ''config.json'' ?w1) = (Some 0, Some 1)" by code_simp
  then have run': "run_benchmark ?T ''config.json'' ?w1
      = ((Some 0, Some 1), snd (run_benchmark ?T ''config.json'' ?w1))" by (rule pair)
  have "fst (extract_metrics_from_avg_response results0 56
          (copy_avg_response ''config.json'' 56 (snd (run_benchmark ?T ''config.json'' ?w1))))
      = (Num 100, Num 20, Num 500, Num 10, Num 560)" by code_simp
  then have reads': "extract_metrics_from_avg_response results0 56
          (copy_avg_response ''config.json'' 56 (snd (run_benchmark ?T ''config.json'' ?w1)))
      = ((Num 100, Num 20, Num 500, Num 10, Num 560),
         snd (extract_metrics_from_avg_response results0 56
          (copy_avg_response ''config.json'' 56 (snd (run_benchmark ?T ''config.json'' ?w1)))))"
    by (rule pair)
  from continuous_runner_stops_on_falsy_metric [where w = world0 and config_file = "''config.json''"
      and config = config0 and echoswift = ?T and n = 56 and result_dir = results0 and fuel = 0
      and code = 0 and bt = "Some 1" and w_run = "snd (run_benchmark ?T ''config.json'' ?w1)"
      and ttft = "Num 100" and latency = "Num 20" and latency_per_token = "Num 500"
      and throughput = "Num 10" and total_throughput = "Num 560"
      and w_read = "snd (extract_metrics_from_avg_response results0 56
          (copy_avg_response ''config.json'' 56 (snd (run_benchmark ?T ''config.json'' ?w1))))"]
    cfg run' reads'
  have goes_on: "fst (continuous_body ?T ''config.json'' 56 results0 world0) = Cont_again"
    by simp
  from stops goes_on show ?thesis by simp
qed

section \<open>Failures during the search\<close>










end
